theory Spec2Isabelle
  imports Main
begin

section \<open>Translation of Substrait relations into execution-plan declarations\<close>

text \<open>
  This theory embeds the function \<open>FromProto\<close> on \<open>substrait::Rel\<close> of
  \<^verbatim>\<open>cpp/src/arrow/engine/substrait/relation_internal.cc\<close> in two revisions:
  \<^item> \<open>FromProto\<close>: the revision that returns a \<open>compute::Declaration\<close>;
  \<^item> \<open>FromProto_DeclarationInfo\<close>: the later revision that returns a
    \<open>DeclarationInfo\<close> (a declaration together with its number of output columns).

  A \<open>Result<T>\<close> is a sum: \<open>Inl\<close> carries the failure, \<open>Inr\<close> the value.
\<close>

subsection \<open>Status and Result\<close>

datatype StatusCode =
  OutOfMemory | KeyError | TypeError | Invalid | IOError | CapacityError | IndexError
  | Cancelled | UnknownError | NotImplemented | SerializationError

datatype Status = Status (code: StatusCode) (message: string)

text \<open>
  A call either returns a non-OK \<open>Status\<close>, or it reads a vector or repeated field
  outside its bounds (\<open>operator[]\<close> without a check, undefined behaviour in C++), which
  the model records as the separate outcome \<open>OutOfRange\<close> instead of hiding it.
\<close>

datatype failure = Error Status | OutOfRange string

type_synonym 'a Result = "failure + 'a"

definition raise :: "StatusCode \<Rightarrow> string \<Rightarrow> 'a Result" where
  "raise c msg = Inl (Error (Status c msg))"

text \<open>Results of collaborators whose failures are always statuses.\<close>

definition lift :: "Status + 'a \<Rightarrow> 'a Result" where
  "lift r = (case r of Inl s \<Rightarrow> Inl (Error s) | Inr v \<Rightarrow> Inr v)"

subsection \<open>Expressions of the execution engine\<close>

text \<open>
  The classes \<open>compute::Expression\<close>, \<open>FieldRef\<close> and \<open>Datum\<close> are declared outside the
  translated file; the model keeps what the translation uses of them. An expression is
  a variant of a literal, a field reference and a call with its \<open>function_name\<close> and
  \<open>arguments\<close>; \<open>Expression::call()\<close> and \<open>Expression::field_ref()\<close> return a null
  pointer when the expression is of another kind. \<open>FieldRef(int)\<close> builds a one-element
  field path.
\<close>

datatype Datum = NullDatum | BoolDatum bool | IntDatum int | StringDatum string

datatype FieldRef = FieldPath "int list" | FieldName string | FieldRefs "FieldRef list"

datatype Expression =
  literal Datum
  | field_ref FieldRef
  | call (function_name: string) (arguments: "Expression list")

fun Expression_call :: "Expression \<Rightarrow> (string \<times> Expression list) option" where
  "Expression_call (call f args) = Some (f, args)"
| "Expression_call _ = None"

fun Expression_field_ref :: "Expression \<Rightarrow> FieldRef option" where
  "Expression_field_ref (field_ref r) = Some r"
| "Expression_field_ref _ = None"

subsection \<open>Declarations and node options\<close>

text \<open>
  The filesystem and dataset types are declared outside the translated file as well:
  a \<open>FileInfo\<close> with its path and type, a \<open>FileSelector\<close> with the two fields that
  the translation sets, a dataset with the files, format and schema it is made from.
\<close>

datatype FileType = NotFound | Unknown | File | Directory

record FileInfo =
  path :: string
  type :: FileType

record FileSelector =
  base_dir :: string
  recursive :: bool

datatype FileFormat = ParquetFileFormat | IpcFileFormat

type_synonym Schema = "(string \<times> string) list"

record Dataset =
  ds_files :: "FileInfo list"
  ds_format :: "FileFormat option"
  ds_schema :: Schema

text \<open>\<open>scan_filter = None\<close>: the filter of a default-constructed \<open>ScanOptions\<close> is kept.\<close>

record ScanOptions =
  use_threads :: bool
  scan_filter :: "Expression option"

datatype JoinType =
  LEFT_SEMI | RIGHT_SEMI | LEFT_ANTI | RIGHT_ANTI | INNER | LEFT_OUTER | RIGHT_OUTER
  | FULL_OUTER

datatype JoinKeyCmp = EQ | IS

text \<open>
  Modelled from the spec: the option structs of the operators (join type, keys and
  null-equality mode of a join; function and target of an aggregate; filter expression;
  projection expressions; dataset and scan options of a scan), declared in headers that
  are not part of the translated file. \<open>HashJoinNodeOptions\<close> has the fields that the
  translation sets; the others keep the values of the two-key-list constructor.
\<close>

record HashJoinNodeOptions =
  join_type :: JoinType
  left_keys :: "FieldRef list"
  right_keys :: "FieldRef list"
  key_cmp :: "JoinKeyCmp list"

record Aggregate =
  agg_function :: string
  agg_target :: FieldRef
  agg_name :: string

datatype ExecNodeOptions =
  ScanNodeOptions Dataset ScanOptions
  | FilterNodeOptions Expression
  | ProjectNodeOptions "Expression list"
  | HashJoinNodeOptionsOf HashJoinNodeOptions
  | AggregateNodeOptions "Aggregate list" "FieldRef list"

text \<open>
  Modelled from the spec: \<open>compute::Declaration\<close>, the triple of an operator (factory)
  name, its options and its inputs, declared in a header that is not part of the
  translated file. The translation only ever stores declarations as inputs, never live
  nodes.
\<close>

datatype Declaration =
  Declaration (factory_name: string) (options: ExecNodeOptions) (inputs: "Declaration list")

record DeclarationInfo =
  declaration' :: Declaration
  num_columns :: int

text \<open>
  Modelled from the spec: \<open>Declaration::Sequence\<close>, defined in the execution engine and
  not part of the translated file. A sequence is a chain in which each declaration is
  the input of the one that follows it. The result is the last declaration; each
  preceding declaration, from the back, is appended to the inputs of the current
  receiver, and the receiver's first input becomes the next receiver. An empty sequence
  has no last element.
\<close>

fun Sequence_attach :: "Declaration list \<Rightarrow> Declaration \<Rightarrow> Declaration" where
  "Sequence_attach [] receiver = receiver"
| "Sequence_attach (i # rest) receiver =
     (case inputs receiver @ [i] of
        [] \<Rightarrow> receiver
      | front # others \<Rightarrow>
          Declaration (factory_name receiver) (options receiver)
            (Sequence_attach rest front # others))"

text \<open>Modelled from the spec: \<open>Declaration::Sequence\<close> itself, on the reversed list; the
  last declaration of an empty sequence is read out of range.\<close>

definition Sequence :: "Declaration list \<Rightarrow> Declaration Result" where
  "Sequence decls =
     (case rev decls of
        [] \<Rightarrow> Inl (OutOfRange ''Declaration::Sequence of no declarations'')
      | out # rest \<Rightarrow> Inr (Sequence_attach rest out))"

subsection \<open>Substrait messages\<close>

text \<open>
  A protobuf message field that may be absent is an \<open>option\<close>. The Substrait expression
  and named-struct messages are only handed to their own translators, so their types
  are the parameters \<open>'x\<close> and \<open>'n\<close>.
\<close>

record RelCommon =
  has_emit :: bool
  has_hint :: bool
  common_has_advanced_extension :: bool

record RelHeader =
  common :: "RelCommon option"
  has_advanced_extension :: bool

text \<open>\<open>JoinRel::JoinType\<close> is an open enum: \<open>JOIN_TYPE_other\<close> is any other wire value.\<close>

datatype JoinRel_JoinType =
  JOIN_TYPE_UNSPECIFIED | JOIN_TYPE_INNER | JOIN_TYPE_OUTER | JOIN_TYPE_LEFT
  | JOIN_TYPE_RIGHT | JOIN_TYPE_SEMI | JOIN_TYPE_ANTI | JOIN_TYPE_other int

datatype PathType =
  kUriPath string | kUriPathGlob string | kUriFile string | kUriFolder string
  | PATH_TYPE_NOT_SET

text \<open>
  \<open>format\<close> is the enum field read by the first revision, \<open>file_format_case\<close> the
  \<open>oneof\<close> that replaced it and is read by the second.
\<close>

datatype FileFormatEnum = FILE_FORMAT_UNSPECIFIED | FILE_FORMAT_PARQUET | FILE_FORMAT_other int

datatype FileFormatCase = kParquet | kArrow | kOrc | kExtension | kDwrf | FILE_FORMAT_NOT_SET

record FileOrFiles =
  path_type_case :: PathType
  format :: FileFormatEnum
  file_format_case :: FileFormatCase
  partition_index :: nat
  start :: nat
  length' :: nat

record LocalFiles =
  lf_has_advanced_extension :: bool
  items :: "FileOrFiles list"

record ('x, 'n) ReadRel =
  read_header :: RelHeader
  base_schema :: 'n
  read_filter :: "'x option"
  has_projection :: bool
  local_files :: "LocalFiles option"

datatype 'x FunctionArgument = ArgEnum | ArgType | ArgValue 'x

record 'x AggregateFunction =
  function_reference :: nat
  agg_arguments :: "'x FunctionArgument list"

record 'x Measure =
  measure' :: "'x AggregateFunction option"
  measure_has_filter :: bool

text \<open>
  \<open>kFilter header input condition\<close>, \<open>kProject header input expressions\<close>,
  \<open>kJoin header left right expression type\<close>,
  \<open>kAggregate header input groupings measures\<close> (a grouping is its list of grouping
  expressions); \<open>kOther\<close> is every other case of \<open>rel_type_case()\<close>, including
  \<open>REL_TYPE_NOT_SET\<close>.
\<close>

datatype ('x, 'n) Rel =
  kRead "('x, 'n) ReadRel"
  | kFilter RelHeader "('x, 'n) Rel option" "'x option"
  | kProject RelHeader "('x, 'n) Rel option" "'x list"
  | kJoin RelHeader "('x, 'n) Rel option" "('x, 'n) Rel option" "'x option" JoinRel_JoinType
  | kAggregate RelHeader "('x, 'n) Rel option" "'x list list" "'x Measure list"
  | kOther

subsection \<open>Collaborators\<close>

text \<open>
  What the translation calls outside its own file, at the fixed extension set and
  conversion options: the translators of expressions and of named structs, the local
  filesystem, the dataset factory, the textual renderings used in messages, the value
  of an unset expression field, and the state in which \<open>std::move\<close> leaves a
  \<open>FileInfo\<close> (valid but unspecified).
\<close>

record ('x, 'n) Env =
  Expression_FromProto :: "'x \<Rightarrow> Status + Expression"
  Schema_FromProto :: "'n \<Rightarrow> Status + Schema"
  GetFileInfo :: "string \<Rightarrow> Status + FileInfo"
  GetFileInfo_selector :: "FileSelector \<Rightarrow> Status + FileInfo list"
  GlobFiles :: "string \<Rightarrow> Status + FileInfo list"
  Dataset_Make_Finish :: "FileInfo list \<Rightarrow> FileFormat option \<Rightarrow> Schema \<Rightarrow> Status + Dataset"
  DecodeFunction :: "nat \<Rightarrow> Status + string"
  Expression_ToString :: "Expression \<Rightarrow> string"
  Rel_DebugString :: "('x, 'n) Rel \<Rightarrow> string"
  default_Expression :: 'x
  moved_from :: "FileInfo \<Rightarrow> FileInfo"

subsection \<open>Helpers shared by both revisions\<close>

definition starts_with :: "string \<Rightarrow> string \<Rightarrow> bool" where
  "starts_with s p = (take (length p) s = p)"

definition ends_with :: "string \<Rightarrow> string \<Rightarrow> bool" where
  "ends_with s p = (length p \<le> length s \<and> drop (length s - length p) s = p)"

definition CheckRelCommon_common :: "RelCommon \<Rightarrow> unit Result" where
  "CheckRelCommon_common c =
     (if has_emit c then raise NotImplemented ''substrait::RelCommon::Emit''
      else if has_hint c then raise NotImplemented ''substrait::RelCommon::Hint''
      else if common_has_advanced_extension c
        then raise NotImplemented ''substrait::RelCommon::advanced_extension''
      else Inr ())"

definition CheckRelCommon :: "RelHeader \<Rightarrow> unit Result" where
  "CheckRelCommon rel =
     (case (case common rel of None \<Rightarrow> Inr () | Some c \<Rightarrow> CheckRelCommon_common c) of
        Inl e \<Rightarrow> Inl e
      | Inr _ \<Rightarrow>
          if has_advanced_extension rel
          then raise NotImplemented ''substrait AdvancedExtensions''
          else Inr ())"

text \<open>The path of an item: the first chain of comparisons of the loop body. An unset
  \<open>uri_path_glob\<close> reads as the empty string.\<close>

definition item_path :: "FileOrFiles \<Rightarrow> string" where
  "item_path item =
     (case path_type_case item of
        kUriPath p \<Rightarrow> p
      | kUriFile p \<Rightarrow> p
      | kUriFolder p \<Rightarrow> p
      | kUriPathGlob p \<Rightarrow> p
      | PATH_TYPE_NOT_SET \<Rightarrow> [])"

text \<open>The checks between the choice of the format and \<open>path.substr(7)\<close>.\<close>

definition check_item :: "string \<Rightarrow> FileOrFiles \<Rightarrow> unit Result" where
  "check_item p item =
     (if \<not> starts_with p ''file:///''
      then raise NotImplemented
        (''substrait::ReadRel::LocalFiles item ('' @ p @
         '') with other than local filesystem (file:///)'')
      else if partition_index item \<noteq> 0
      then raise NotImplemented
        ''non-default substrait::ReadRel::LocalFiles::FileOrFiles::partition_index''
      else if start item \<noteq> 0
      then raise NotImplemented
        ''non-default substrait::ReadRel::LocalFiles::FileOrFiles::start offset''
      else if length' item \<noteq> 0
      then raise NotImplemented
        ''non-default substrait::ReadRel::LocalFiles::FileOrFiles::length''
      else Inr ())"

text \<open>
  The block guarded by \<open>path_type_case() == kUriPath\<close>. For a directory the files
  accumulated so far are moved behind the discovered ones, into the local vector
  \<open>discovered_files\<close>, which goes out of scope at the end of the block: \<open>files\<close>
  keeps its length and holds moved-from elements.
\<close>

definition collect_uri_path ::
  "('x, 'n) Env \<Rightarrow> PathType \<Rightarrow> string \<Rightarrow> FileInfo list \<Rightarrow> FileInfo list Result" where
  "collect_uri_path env pt p files =
     (case pt of
        kUriPath _ \<Rightarrow>
          (case lift (GetFileInfo env p) of
             Inl e \<Rightarrow> Inl e
           | Inr file \<Rightarrow>
               if type file = File then Inr (files @ [file])
               else if type file = Directory then
                 (case lift (GetFileInfo_selector env \<lparr>base_dir = p, recursive = True\<rparr>) of
                    Inl e \<Rightarrow> Inl e
                  | Inr discovered_files \<Rightarrow> Inr (map (moved_from env) files))
               else Inr files)
      | _ \<Rightarrow> Inr files)"

text \<open>The chain \<open>kUriFile\<close> / \<open>kUriFolder\<close> / otherwise that follows it (a separate
  \<open>if\<close>, so a \<open>kUriPath\<close> item also takes the last branch).\<close>

definition collect_files ::
  "('x, 'n) Env \<Rightarrow> PathType \<Rightarrow> string \<Rightarrow> FileInfo list \<Rightarrow> FileInfo list Result" where
  "collect_files env pt p files =
     (case pt of
        kUriFile _ \<Rightarrow> Inr (files @ [\<lparr>path = p, type = File\<rparr>])
      | kUriFolder _ \<Rightarrow>
          (case lift (GetFileInfo_selector env \<lparr>base_dir = p, recursive = True\<rparr>) of
             Inl e \<Rightarrow> Inl e
           | Inr discovered_files \<Rightarrow> Inr (files @ discovered_files))
      | _ \<Rightarrow>
          (case lift (GlobFiles env p) of
             Inl e \<Rightarrow> Inl e
           | Inr discovered_files \<Rightarrow> Inr (files @ discovered_files)))"

text \<open>From \<open>path.substr(7)\<close> to the end of the loop body.\<close>

definition add_item_files ::
  "('x, 'n) Env \<Rightarrow> FileOrFiles \<Rightarrow> string \<Rightarrow> FileInfo list \<Rightarrow> FileInfo list Result" where
  "add_item_files env item p files =
     (case collect_uri_path env (path_type_case item) (drop 7 p) files of
        Inl e \<Rightarrow> Inl e
      | Inr files1 \<Rightarrow> collect_files env (path_type_case item) (drop 7 p) files1)"

text \<open>The loop over \<open>project.expressions()\<close>: the first failing translation is returned.\<close>

fun Expressions_FromProto :: "('x, 'n) Env \<Rightarrow> 'x list \<Rightarrow> Expression list Result" where
  "Expressions_FromProto env [] = Inr []"
| "Expressions_FromProto env (expr # exprs) =
     (case lift (Expression_FromProto env expr) of
        Inl e \<Rightarrow> Inl e
      | Inr ex \<Rightarrow>
          (case Expressions_FromProto env exprs of
             Inl e \<Rightarrow> Inl e
           | Inr exs \<Rightarrow> Inr (ex # exs)))"

text \<open>The \<open>switch (join.type())\<close>.\<close>

definition join_type_switch :: "JoinRel_JoinType \<Rightarrow> JoinType Result" where
  "join_type_switch t =
     (case t of
        JOIN_TYPE_UNSPECIFIED \<Rightarrow> raise NotImplemented ''Unspecified join type is not supported''
      | JOIN_TYPE_INNER \<Rightarrow> Inr INNER
      | JOIN_TYPE_OUTER \<Rightarrow> Inr FULL_OUTER
      | JOIN_TYPE_LEFT \<Rightarrow> Inr LEFT_OUTER
      | JOIN_TYPE_RIGHT \<Rightarrow> Inr RIGHT_OUTER
      | JOIN_TYPE_SEMI \<Rightarrow> Inr LEFT_SEMI
      | JOIN_TYPE_ANTI \<Rightarrow> Inr LEFT_ANTI
      | JOIN_TYPE_other _ \<Rightarrow> raise Invalid ''Unsupported join type'')"

text \<open>The comparison of \<open>callptr->function_name\<close>.\<close>

definition join_key_cmp_of :: "string \<Rightarrow> JoinKeyCmp Result" where
  "join_key_cmp_of fname =
     (if fname = ''equal'' then Inr EQ
      else if fname = ''is_not_distinct_from'' then Inr IS
      else raise Invalid
        (''Only `equal` or `is_not_distinct_from` are supported for join key comparison but got ''
          @ fname))"

text \<open>\<open>callptr->arguments[i]\<close>: \<open>std::vector::operator[]\<close>, which checks nothing.\<close>

definition arguments_at :: "Expression list \<Rightarrow> nat \<Rightarrow> Expression Result" where
  "arguments_at args i =
     (if i < length args then Inr (args ! i)
      else Inl (OutOfRange ''callptr->arguments''))"

text \<open>From the reads of the two arguments to the filled \<open>HashJoinNodeOptions\<close>.\<close>

definition join_options_of ::
  "JoinType \<Rightarrow> JoinKeyCmp \<Rightarrow> Expression list \<Rightarrow> HashJoinNodeOptions Result" where
  "join_options_of jt cmp args =
     (case arguments_at args 0 of
        Inl e \<Rightarrow> Inl e
      | Inr a0 \<Rightarrow>
          (case arguments_at args 1 of
             Inl e \<Rightarrow> Inl e
           | Inr a1 \<Rightarrow>
               (case (Expression_field_ref a0, Expression_field_ref a1) of
                  (Some lk, Some rk) \<Rightarrow>
                    Inr \<lparr>join_type = jt, left_keys = [lk], right_keys = [rk], key_cmp = [cmp]\<rparr>
                | _ \<Rightarrow> raise Invalid ''Left keys for join cannot be null'')))"

text \<open>From \<open>expression.call()\<close> to the filled options.\<close>

definition join_options_FromExpression ::
  "('x, 'n) Env \<Rightarrow> JoinType \<Rightarrow> Expression \<Rightarrow> HashJoinNodeOptions Result" where
  "join_options_FromExpression env jt expression =
     (case Expression_call expression of
        None \<Rightarrow>
          raise Invalid
            (''A join rel's expression must be a simple equality between keys but got ''
              @ Expression_ToString env expression)
      | Some (fname, args) \<Rightarrow>
          (case join_key_cmp_of fname of
             Inl e \<Rightarrow> Inl e
           | Inr cmp \<Rightarrow> join_options_of jt cmp args))"

subsection \<open>First revision: \<open>FromProto\<close> returning a declaration\<close>

text \<open>The choice of the file format from the enum field and the extension of the path.\<close>

definition item_format :: "string \<Rightarrow> FileOrFiles \<Rightarrow> FileFormat Result" where
  "item_format p item =
     (if format item = FILE_FORMAT_PARQUET then Inr ParquetFileFormat
      else if ends_with p ''.arrow'' then Inr IpcFileFormat
      else if ends_with p ''.feather'' then Inr IpcFileFormat
      else raise NotImplemented
        ''substrait::ReadRel::LocalFiles::FileOrFiles::format other than FILE_FORMAT_PARQUET'')"

text \<open>The loop over the items, on the pair of the current format and the files.\<close>

fun read_items ::
  "('x, 'n) Env \<Rightarrow> FileOrFiles list \<Rightarrow> FileFormat option \<times> FileInfo list \<Rightarrow>
   (FileFormat option \<times> FileInfo list) Result" where
  "read_items env [] st = Inr st"
| "read_items env (item # rest) (fmt, files) =
     (case item_format (item_path item) item of
        Inl e \<Rightarrow> Inl e
      | Inr fmt1 \<Rightarrow>
          (case check_item (item_path item) item of
             Inl e \<Rightarrow> Inl e
           | Inr _ \<Rightarrow>
               (case add_item_files env item (item_path item) files of
                  Inl e \<Rightarrow> Inl e
                | Inr files1 \<Rightarrow> read_items env rest (Some fmt1, files1))))"

text \<open>The part of the \<open>kRead\<close> case before the loop: the schema, the scan options and the
  local files message.\<close>

definition read_prologue ::
  "('x, 'n) Env \<Rightarrow> ('x, 'n) ReadRel \<Rightarrow> (Schema \<times> ScanOptions \<times> LocalFiles) Result" where
  "read_prologue env read =
     (case CheckRelCommon (read_header read) of
        Inl e \<Rightarrow> Inl e
      | Inr _ \<Rightarrow>
          (case lift (Schema_FromProto env (base_schema read)) of
             Inl e \<Rightarrow> Inl e
           | Inr schema \<Rightarrow>
               (case (case read_filter read of
                        None \<Rightarrow> Inr \<lparr>use_threads = True, scan_filter = None\<rparr>
                      | Some f \<Rightarrow>
                          (case lift (Expression_FromProto env f) of
                             Inl e \<Rightarrow> Inl e
                           | Inr ex \<Rightarrow> Inr \<lparr>use_threads = True, scan_filter = Some ex\<rparr>)) of
                  Inl e \<Rightarrow> Inl e
                | Inr scan_options \<Rightarrow>
                    if has_projection read
                    then raise NotImplemented ''substrait::ReadRel::projection''
                    else
                      (case local_files read of
                         None \<Rightarrow>
                           raise NotImplemented
                             ''substrait::ReadRel with read_type other than LocalFiles''
                       | Some lf \<Rightarrow>
                           if lf_has_advanced_extension lf
                           then raise NotImplemented
                             ''substrait::ReadRel::LocalFiles::advanced_extension''
                           else Inr (schema, scan_options, lf)))))"

definition FromProto_read :: "('x, 'n) Env \<Rightarrow> ('x, 'n) ReadRel \<Rightarrow> Declaration Result" where
  "FromProto_read env read =
     (case read_prologue env read of
        Inl e \<Rightarrow> Inl e
      | Inr (schema, scan_options, lf) \<Rightarrow>
          (case read_items env (items lf) (None, []) of
             Inl e \<Rightarrow> Inl e
           | Inr (fmt, files) \<Rightarrow>
               (case lift (Dataset_Make_Finish env files fmt schema) of
                  Inl e \<Rightarrow> Inl e
                | Inr ds \<Rightarrow> Inr (Declaration ''scan'' (ScanNodeOptions ds scan_options) []))))"

text \<open>
  The function itself. The one-time call of \<open>dataset::internal::Initialize()\<close> registers
  node factories and does not enter the result. In this revision \<open>kAggregate\<close> is one
  of the cases that fall through to the final \<open>NotImplemented\<close>.
\<close>

fun FromProto :: "('x, 'n) Env \<Rightarrow> ('x, 'n) Rel \<Rightarrow> Declaration Result" where
  "FromProto env (kRead read) = FromProto_read env read"
| "FromProto env (kFilter filter' input condition) =
     (case CheckRelCommon filter' of
        Inl e \<Rightarrow> Inl e
      | Inr _ \<Rightarrow>
          (case input of
             None \<Rightarrow> raise Invalid ''substrait::FilterRel with no input relation''
           | Some input_rel \<Rightarrow>
               (case FromProto env input_rel of
                  Inl e \<Rightarrow> Inl e
                | Inr input_decl \<Rightarrow>
                    (case condition of
                       None \<Rightarrow> raise Invalid ''substrait::FilterRel with no condition expression''
                     | Some c \<Rightarrow>
                         (case lift (Expression_FromProto env c) of
                            Inl e \<Rightarrow> Inl e
                          | Inr cond \<Rightarrow>
                              Sequence
                                [input_decl,
                                 Declaration ''filter'' (FilterNodeOptions cond) []])))))"
| "FromProto env (kProject project input exprs) =
     (case CheckRelCommon project of
        Inl e \<Rightarrow> Inl e
      | Inr _ \<Rightarrow>
          (case input of
             None \<Rightarrow> raise Invalid ''substrait::ProjectRel with no input relation''
           | Some input_rel \<Rightarrow>
               (case FromProto env input_rel of
                  Inl e \<Rightarrow> Inl e
                | Inr input_decl \<Rightarrow>
                    (case Expressions_FromProto env exprs of
                       Inl e \<Rightarrow> Inl e
                     | Inr expressions \<Rightarrow>
                         Sequence
                           [input_decl,
                            Declaration ''project'' (ProjectNodeOptions expressions) []]))))"
| "FromProto env (kJoin join left right expression t) =
     (case CheckRelCommon join of
        Inl e \<Rightarrow> Inl e
      | Inr _ \<Rightarrow>
          (case left of
             None \<Rightarrow> raise Invalid ''substrait::JoinRel with no left relation''
           | Some left_rel \<Rightarrow>
               (case right of
                  None \<Rightarrow> raise Invalid ''substrait::JoinRel with no right relation''
                | Some right_rel \<Rightarrow>
                    (case join_type_switch t of
                       Inl e \<Rightarrow> Inl e
                     | Inr jt \<Rightarrow>
                         (case FromProto env left_rel of
                            Inl e \<Rightarrow> Inl e
                          | Inr left_decl \<Rightarrow>
                              (case FromProto env right_rel of
                                 Inl e \<Rightarrow> Inl e
                               | Inr right_decl \<Rightarrow>
                                   (case expression of
                                      None \<Rightarrow>
                                        raise Invalid ''substrait::JoinRel with no expression''
                                    | Some x \<Rightarrow>
                                        (case lift (Expression_FromProto env x) of
                                           Inl e \<Rightarrow> Inl e
                                         | Inr ex \<Rightarrow>
                                             (case join_options_FromExpression env jt ex of
                                                Inl e \<Rightarrow> Inl e
                                              | Inr join_options \<Rightarrow>
                                                  Inr (Declaration ''hashjoin''
                                                        (HashJoinNodeOptionsOf join_options)
                                                        [left_decl, right_decl]))))))))))"
| "FromProto env rel =
     raise NotImplemented
       (''conversion to arrow::compute::Declaration from Substrait relation ''
         @ Rel_DebugString env rel)"

subsection \<open>Second revision: \<open>FromProto\<close> returning a \<open>DeclarationInfo\<close>\<close>

text \<open>The \<open>switch (item.file_format_case())\<close>.\<close>

definition item_file_format :: "FileOrFiles \<Rightarrow> FileFormat Result" where
  "item_file_format item =
     (case file_format_case item of
        kParquet \<Rightarrow> Inr ParquetFileFormat
      | kArrow \<Rightarrow> Inr IpcFileFormat
      | _ \<Rightarrow> raise NotImplemented
          ''unknown substrait::ReadRel::LocalFiles::FileOrFiles::file_format'')"

fun read_items_info ::
  "('x, 'n) Env \<Rightarrow> FileOrFiles list \<Rightarrow> FileFormat option \<times> FileInfo list \<Rightarrow>
   (FileFormat option \<times> FileInfo list) Result" where
  "read_items_info env [] st = Inr st"
| "read_items_info env (item # rest) (fmt, files) =
     (case item_file_format item of
        Inl e \<Rightarrow> Inl e
      | Inr fmt1 \<Rightarrow>
          (case check_item (item_path item) item of
             Inl e \<Rightarrow> Inl e
           | Inr _ \<Rightarrow>
               (case add_item_files env item (item_path item) files of
                  Inl e \<Rightarrow> Inl e
                | Inr files1 \<Rightarrow> read_items_info env rest (Some fmt1, files1))))"

text \<open>
  \<open>num_columns\<close> is a C++ \<open>int\<close> that only ever holds the size of a vector of fields,
  expressions or aggregates, or a sum of such sizes; it is modelled as a mathematical
  integer.
\<close>

definition FromProto_read_info ::
  "('x, 'n) Env \<Rightarrow> ('x, 'n) ReadRel \<Rightarrow> DeclarationInfo Result" where
  "FromProto_read_info env read =
     (case read_prologue env read of
        Inl e \<Rightarrow> Inl e
      | Inr (schema, scan_options, lf) \<Rightarrow>
          (case read_items_info env (items lf) (None, []) of
             Inl e \<Rightarrow> Inl e
           | Inr (fmt, files) \<Rightarrow>
               (case lift (Dataset_Make_Finish env files fmt schema) of
                  Inl e \<Rightarrow> Inl e
                | Inr ds \<Rightarrow>
                    Inr \<lparr>declaration' = Declaration ''scan'' (ScanNodeOptions ds scan_options) [],
                         num_columns = int (length schema)\<rparr>)))"

text \<open>The loop over the grouping expressions of the first grouping.\<close>

fun grouping_keys :: "('x, 'n) Env \<Rightarrow> 'x list \<Rightarrow> FieldRef list Result" where
  "grouping_keys env [] = Inr []"
| "grouping_keys env (x # xs) =
     (case lift (Expression_FromProto env x) of
        Inl e \<Rightarrow> Inl e
      | Inr expr \<Rightarrow>
          (case Expression_field_ref expr of
             None \<Rightarrow>
               raise Invalid
                 ''The grouping expression for an aggregate must be a direct reference.''
           | Some r \<Rightarrow>
               (case grouping_keys env xs of
                  Inl e \<Rightarrow> Inl e
                | Inr keys \<Rightarrow> Inr (r # keys))))"

text \<open>\<open>FunctionArgument::value()\<close>: the default expression when the argument is not a
  value.\<close>

definition argument_value :: "('x, 'n) Env \<Rightarrow> 'x FunctionArgument \<Rightarrow> 'x" where
  "argument_value env a = (case a of ArgValue v \<Rightarrow> v | _ \<Rightarrow> default_Expression env)"

text \<open>The body of the loop over the measures.\<close>

definition measure_aggregate :: "('x, 'n) Env \<Rightarrow> 'x Measure \<Rightarrow> Aggregate Result" where
  "measure_aggregate env agg_measure =
     (case measure' agg_measure of
        None \<Rightarrow> raise Invalid ''substrait::AggregateFunction not provided''
      | Some agg_func \<Rightarrow>
          if measure_has_filter agg_measure
          then raise NotImplemented ''Aggregate filters are not supported.''
          else
            (case agg_arguments agg_func of
               [subs_func_args] \<Rightarrow>
                 (case lift (DecodeFunction env (function_reference agg_func)) of
                    Inl e \<Rightarrow> Inl e
                  | Inr func_name \<Rightarrow>
                      (case lift (Expression_FromProto env (argument_value env subs_func_args)) of
                         Inl e \<Rightarrow> Inl e
                       | Inr field_expr \<Rightarrow>
                           (case Expression_field_ref field_expr of
                              None \<Rightarrow>
                                raise Invalid
                                  ''The input expression to an aggregate function must be a direct reference.''
                            | Some target \<Rightarrow>
                                Inr \<lparr>agg_function = func_name, agg_target = target,
                                     agg_name = []\<rparr>)))
             | _ \<Rightarrow> raise NotImplemented ''Aggregate function must be a unary function.''))"

fun measures_aggregates :: "('x, 'n) Env \<Rightarrow> 'x Measure list \<Rightarrow> Aggregate list Result" where
  "measures_aggregates env [] = Inr []"
| "measures_aggregates env (m # ms) =
     (case measure_aggregate env m of
        Inl e \<Rightarrow> Inl e
      | Inr a \<Rightarrow>
          (case measures_aggregates env ms of
             Inl e \<Rightarrow> Inl e
           | Inr aggs \<Rightarrow> Inr (a # aggs)))"

text \<open>The \<open>kAggregate\<close> case after the translation of the input: \<open>groupings(0)\<close> is read
  without a check that a grouping exists.\<close>

definition aggregate_options ::
  "('x, 'n) Env \<Rightarrow> 'x list list \<Rightarrow> 'x Measure list \<Rightarrow> (Aggregate list \<times> FieldRef list) Result"
  where
  "aggregate_options env groupings agg_measures =
     (if length groupings > 1
      then raise NotImplemented
        ''Grouping sets not supported.  AggregateRel::groupings may not have more than one item''
      else
        (case groupings of
           [] \<Rightarrow> Inl (OutOfRange ''aggregate.groupings(0)'')
         | grouping # _ \<Rightarrow>
             (case grouping_keys env grouping of
                Inl e \<Rightarrow> Inl e
              | Inr keys \<Rightarrow>
                  (case measures_aggregates env agg_measures of
                     Inl e \<Rightarrow> Inl e
                   | Inr aggregates \<Rightarrow> Inr (aggregates, keys)))))"

text \<open>The field references \<open>0, \<dots>, num_columns - 1\<close> that the \<open>kProject\<close> case puts in
  front of the translated expressions.\<close>

definition prefix_field_refs :: "int \<Rightarrow> Expression list" where
  "prefix_field_refs n = map (\<lambda>i. field_ref (FieldPath [i])) [0..n - 1]"

fun FromProto_DeclarationInfo ::
  "('x, 'n) Env \<Rightarrow> ('x, 'n) Rel \<Rightarrow> DeclarationInfo Result" where
  "FromProto_DeclarationInfo env (kRead read) = FromProto_read_info env read"
| "FromProto_DeclarationInfo env (kFilter filter' input condition) =
     (case CheckRelCommon filter' of
        Inl e \<Rightarrow> Inl e
      | Inr _ \<Rightarrow>
          (case input of
             None \<Rightarrow> raise Invalid ''substrait::FilterRel with no input relation''
           | Some input_rel \<Rightarrow>
               (case FromProto_DeclarationInfo env input_rel of
                  Inl e \<Rightarrow> Inl e
                | Inr input_info \<Rightarrow>
                    (case condition of
                       None \<Rightarrow> raise Invalid ''substrait::FilterRel with no condition expression''
                     | Some c \<Rightarrow>
                         (case lift (Expression_FromProto env c) of
                            Inl e \<Rightarrow> Inl e
                          | Inr cond \<Rightarrow>
                              (case Sequence
                                      [declaration' input_info,
                                       Declaration ''filter'' (FilterNodeOptions cond) []] of
                                 Inl e \<Rightarrow> Inl e
                               | Inr d \<Rightarrow>
                                   Inr \<lparr>declaration' = d,
                                        num_columns = num_columns input_info\<rparr>))))))"
| "FromProto_DeclarationInfo env (kProject project input exprs) =
     (case CheckRelCommon project of
        Inl e \<Rightarrow> Inl e
      | Inr _ \<Rightarrow>
          (case input of
             None \<Rightarrow> raise Invalid ''substrait::ProjectRel with no input relation''
           | Some input_rel \<Rightarrow>
               (case FromProto_DeclarationInfo env input_rel of
                  Inl e \<Rightarrow> Inl e
                | Inr input_info \<Rightarrow>
                    (case Expressions_FromProto env exprs of
                       Inl e \<Rightarrow> Inl e
                     | Inr translated \<Rightarrow>
                         (case Sequence
                                 [declaration' input_info,
                                  Declaration ''project''
                                    (ProjectNodeOptions
                                      (prefix_field_refs (num_columns input_info) @ translated))
                                    []] of
                            Inl e \<Rightarrow> Inl e
                          | Inr d \<Rightarrow>
                              Inr \<lparr>declaration' = d,
                                   num_columns =
                                     int (length (prefix_field_refs (num_columns input_info)
                                                  @ translated))\<rparr>)))))"
| "FromProto_DeclarationInfo env (kJoin join left right expression t) =
     (case CheckRelCommon join of
        Inl e \<Rightarrow> Inl e
      | Inr _ \<Rightarrow>
          (case left of
             None \<Rightarrow> raise Invalid ''substrait::JoinRel with no left relation''
           | Some left_rel \<Rightarrow>
               (case right of
                  None \<Rightarrow> raise Invalid ''substrait::JoinRel with no right relation''
                | Some right_rel \<Rightarrow>
                    (case join_type_switch t of
                       Inl e \<Rightarrow> Inl e
                     | Inr jt \<Rightarrow>
                         (case FromProto_DeclarationInfo env left_rel of
                            Inl e \<Rightarrow> Inl e
                          | Inr left_info \<Rightarrow>
                              (case FromProto_DeclarationInfo env right_rel of
                                 Inl e \<Rightarrow> Inl e
                               | Inr right_info \<Rightarrow>
                                   (case expression of
                                      None \<Rightarrow>
                                        raise Invalid ''substrait::JoinRel with no expression''
                                    | Some x \<Rightarrow>
                                        (case lift (Expression_FromProto env x) of
                                           Inl e \<Rightarrow> Inl e
                                         | Inr ex \<Rightarrow>
                                             (case join_options_FromExpression env jt ex of
                                                Inl e \<Rightarrow> Inl e
                                              | Inr join_options \<Rightarrow>
                                                  Inr \<lparr>declaration' =
                                                         Declaration ''hashjoin''
                                                           (HashJoinNodeOptionsOf join_options)
                                                           [declaration' left_info,
                                                            declaration' right_info],
                                                       num_columns =
                                                         num_columns left_info
                                                         + num_columns right_info\<rparr>)))))))))"
| "FromProto_DeclarationInfo env (kAggregate aggregate input groupings agg_measures) =
     (case CheckRelCommon aggregate of
        Inl e \<Rightarrow> Inl e
      | Inr _ \<Rightarrow>
          (case input of
             None \<Rightarrow> raise Invalid ''substrait::AggregateRel with no input relation''
           | Some input_rel \<Rightarrow>
               (case FromProto_DeclarationInfo env input_rel of
                  Inl e \<Rightarrow> Inl e
                | Inr input_info \<Rightarrow>
                    (case aggregate_options env groupings agg_measures of
                       Inl e \<Rightarrow> Inl e
                     | Inr (aggregates, keys) \<Rightarrow>
                         (case Sequence
                                 [declaration' input_info,
                                  Declaration ''aggregate''
                                    (AggregateNodeOptions aggregates keys) []] of
                            Inl e \<Rightarrow> Inl e
                          | Inr d \<Rightarrow>
                              Inr \<lparr>declaration' = d,
                                   num_columns = int (length aggregates)\<rparr>)))))"
| "FromProto_DeclarationInfo env kOther =
     raise NotImplemented
       (''conversion to arrow::compute::Declaration from Substrait relation ''
         @ Rel_DebugString env kOther)"

subsection \<open>The join kinds as the specification lists them\<close>


subsection \<open>Concrete inputs\<close>

text \<open>
  A local filesystem with the files \<open>/tmp/dat1.parquet\<close>, \<open>/tmp/dat2.parquet\<close> and the
  directory \<open>/data\<close> that holds \<open>/data/a.parquet\<close>; translators that accept every
  expression and named struct as it is; a glob without wildcards, which finds the entry
  of that path if it exists; a dataset factory that keeps what it is given.
\<close>

definition example_GetFileInfo :: "string \<Rightarrow> Status + FileInfo" where
  "example_GetFileInfo p =
     Inr \<lparr>path = p,
          type = (if p = ''/tmp/dat1.parquet'' \<or> p = ''/tmp/dat2.parquet''
                     \<or> p = ''/data/a.parquet'' then File
                  else if p = ''/data'' then Directory
                  else NotFound)\<rparr>"

definition example_GetFileInfo_selector :: "FileSelector \<Rightarrow> Status + FileInfo list" where
  "example_GetFileInfo_selector sel =
     (if base_dir sel = ''/data'' then Inr [\<lparr>path = ''/data/a.parquet'', type = File\<rparr>]
      else Inl (Status IOError ''Cannot list directory''))"

definition example_GlobFiles :: "string \<Rightarrow> Status + FileInfo list" where
  "example_GlobFiles p =
     (case example_GetFileInfo p of
        Inl e \<Rightarrow> Inl e
      | Inr info \<Rightarrow> if type info = NotFound then Inr [] else Inr [info])"

definition example_env :: "(Expression, Schema) Env" where
  "example_env =
     \<lparr>Expression_FromProto = Inr,
      Schema_FromProto = Inr,
      GetFileInfo = example_GetFileInfo,
      GetFileInfo_selector = example_GetFileInfo_selector,
      GlobFiles = example_GlobFiles,
      Dataset_Make_Finish =
        (\<lambda>files fmt schema. Inr \<lparr>ds_files = files, ds_format = fmt, ds_schema = schema\<rparr>),
      DecodeFunction = (\<lambda>_. Inr ''sum''),
      Expression_ToString = (\<lambda>_. ''<expression>''),
      Rel_DebugString = (\<lambda>_. ''<rel>''),
      default_Expression = literal NullDatum,
      moved_from = (\<lambda>info. info\<lparr>path := []\<rparr>)\<rparr>"

definition no_header :: RelHeader where
  "no_header = \<lparr>common = None, has_advanced_extension = False\<rparr>"

definition emit_header :: RelHeader where
  "emit_header =
     \<lparr>common = Some \<lparr>has_emit = True, has_hint = False,
                      common_has_advanced_extension = False\<rparr>,
      has_advanced_extension = False\<rparr>"

definition example_item :: "PathType \<Rightarrow> FileOrFiles" where
  "example_item pt =
     \<lparr>path_type_case = pt, format = FILE_FORMAT_PARQUET, file_format_case = kParquet,
      partition_index = 0, start = 0, length' = 0\<rparr>"

definition example_read :: "FileOrFiles list \<Rightarrow> Schema \<Rightarrow> (Expression, Schema) Rel" where
  "example_read its schema =
     kRead \<lparr>read_header = no_header, base_schema = schema, read_filter = None,
            has_projection = False,
            local_files = Some \<lparr>lf_has_advanced_extension = False, items = its\<rparr>\<rparr>"

text \<open>The two reads and the join expression of the test \<open>JoinPlanBasic\<close>.\<close>

definition example_left :: "(Expression, Schema) Rel" where
  "example_left =
     example_read [example_item (kUriFile ''file:///tmp/dat1.parquet'')]
       [(''A'', ''i32''), (''B'', ''i32''), (''C'', ''i32'')]"

definition example_right :: "(Expression, Schema) Rel" where
  "example_right =
     example_read [example_item (kUriFile ''file:///tmp/dat2.parquet'')]
       [(''X'', ''i32''), (''Y'', ''i32''), (''A'', ''i32'')]"

text \<open>The declaration that the read of one Parquet file translates to.\<close>

definition example_scan :: "string \<Rightarrow> Schema \<Rightarrow> Declaration" where
  "example_scan p schema =
     Declaration ''scan''
       (ScanNodeOptions
         \<lparr>ds_files = [\<lparr>path = p, type = File\<rparr>], ds_format = Some ParquetFileFormat,
          ds_schema = schema\<rparr>
         \<lparr>use_threads = True, scan_filter = None\<rparr>)
       []"

definition example_left_scan :: Declaration where
  "example_left_scan =
     example_scan ''/tmp/dat1.parquet'' [(''A'', ''i32''), (''B'', ''i32''), (''C'', ''i32'')]"

definition example_right_scan :: Declaration where
  "example_right_scan =
     example_scan ''/tmp/dat2.parquet'' [(''X'', ''i32''), (''Y'', ''i32''), (''A'', ''i32'')]"

definition example_keys :: "Expression list" where
  "example_keys = [field_ref (FieldPath [0]), field_ref (FieldPath [5])]"

definition example_join ::
  "RelHeader \<Rightarrow> Expression \<Rightarrow> JoinRel_JoinType \<Rightarrow> (Expression, Schema) Rel" where
  "example_join h expression t =
     kJoin h (Some example_left) (Some example_right) (Some expression) t"

definition example_condition :: Expression where
  "example_condition = call ''greater'' [field_ref (FieldPath [0]), literal (IntDatum 3)]"

definition example_directory_read :: "(Expression, Schema) Rel" where
  "example_directory_read =
     example_read [example_item (kUriPath ''file:///data'')] [(''A'', ''i32'')]"

section \<open>Properties\<close>

subsection \<open>Evaluation of the concrete inputs\<close>

lemmas example_defs = example_env_def example_read_def example_item_def no_header_def
  example_GetFileInfo_def example_GetFileInfo_selector_def example_GlobFiles_def
  example_scan_def

lemmas read_defs = FromProto_read_def FromProto_read_info_def read_prologue_def
  CheckRelCommon_def CheckRelCommon_common_def lift_def raise_def item_format_def
  item_file_format_def item_path_def check_item_def starts_with_def ends_with_def
  add_item_files_def collect_uri_path_def collect_files_def

lemma example_left_FromProto: "FromProto example_env example_left = Inr example_left_scan"
  by (simp add: example_left_def example_left_scan_def example_defs read_defs)

lemma example_right_FromProto: "FromProto example_env example_right = Inr example_right_scan"
  by (simp add: example_right_def example_right_scan_def example_defs read_defs)

lemma example_left_info:
  "FromProto_DeclarationInfo example_env example_left =
     Inr \<lparr>declaration' = example_left_scan, num_columns = 3\<rparr>"
  by (simp add: example_left_def example_left_scan_def example_defs read_defs)

lemma example_right_info:
  "FromProto_DeclarationInfo example_env example_right =
     Inr \<lparr>declaration' = example_right_scan, num_columns = 3\<rparr>"
  by (simp add: example_right_def example_right_scan_def example_defs read_defs)

lemma example_Expression_FromProto: "Expression_FromProto example_env x = Inr x"
  by (simp add: example_env_def)

lemma CheckRelCommon_no_header: "CheckRelCommon no_header = Inr ()"
  by (simp add: CheckRelCommon_def no_header_def)

lemma CheckRelCommon_emit_header:
  "CheckRelCommon emit_header = Inl (Error (Status NotImplemented ''substrait::RelCommon::Emit''))"
  by (simp add: CheckRelCommon_def CheckRelCommon_common_def emit_header_def raise_def)

lemma example_join_FromProto:
  "FromProto example_env (example_join no_header ex t) =
     (case join_type_switch t of
        Inl e \<Rightarrow> Inl e
      | Inr jt \<Rightarrow>
          (case join_options_FromExpression example_env jt ex of
             Inl e \<Rightarrow> Inl e
           | Inr jo \<Rightarrow>
               Inr (Declaration ''hashjoin'' (HashJoinNodeOptionsOf jo)
                     [example_left_scan, example_right_scan])))"
  by (simp add: example_join_def CheckRelCommon_no_header example_left_FromProto
        example_right_FromProto example_Expression_FromProto lift_def split: sum.splits)

lemma example_join_info:
  "FromProto_DeclarationInfo example_env (example_join no_header ex t) =
     (case join_type_switch t of
        Inl e \<Rightarrow> Inl e
      | Inr jt \<Rightarrow>
          (case join_options_FromExpression example_env jt ex of
             Inl e \<Rightarrow> Inl e
           | Inr jo \<Rightarrow>
               Inr \<lparr>declaration' = Declaration ''hashjoin'' (HashJoinNodeOptionsOf jo)
                                      [example_left_scan, example_right_scan],
                    num_columns = 6\<rparr>))"
  by (simp add: example_join_def CheckRelCommon_no_header example_left_info
        example_right_info example_Expression_FromProto lift_def split: sum.splits)

lemma example_keys_options:
  "join_options_FromExpression env jt (call ''equal'' example_keys) =
     Inr \<lparr>join_type = jt, left_keys = [FieldPath [0]], right_keys = [FieldPath [5]],
          key_cmp = [EQ]\<rparr>"
  by (simp add: join_options_FromExpression_def join_key_cmp_of_def join_options_of_def
        arguments_at_def example_keys_def)

subsection \<open>What an accepted join rel looks like\<close>

lemma Sequence_pair: "Sequence [a, Declaration n opts []] = Inr (Declaration n opts [a])"
  by (simp add: Sequence_def)



lemma Expression_field_ref_Some: "Expression_field_ref e = Some r \<Longrightarrow> e = field_ref r"
  by (cases e) simp_all

lemma join_options_FromExpression_Inr:
  assumes "join_options_FromExpression env jt ex = Inr jo"
  shows "\<exists>fname args lk rk cmp.
           ex = call fname args \<and> 2 \<le> length args \<and>
           args ! 0 = field_ref lk \<and> args ! 1 = field_ref rk \<and>
           jo = \<lparr>join_type = jt, left_keys = [lk], right_keys = [rk], key_cmp = [cmp]\<rparr> \<and>
           ((fname = ''equal'' \<and> cmp = EQ) \<or> (fname = ''is_not_distinct_from'' \<and> cmp = IS))"
proof (cases ex)
  case (call fname args)
  from assms call obtain cmp where
    cmp: "join_key_cmp_of fname = Inr cmp" and jo: "join_options_of jt cmp args = Inr jo"
    by (auto simp: join_options_FromExpression_def split: sum.splits)
  from cmp have names:
    "(fname = ''equal'' \<and> cmp = EQ) \<or> (fname = ''is_not_distinct_from'' \<and> cmp = IS)"
    by (auto simp: join_key_cmp_of_def raise_def split: if_splits)
  from jo have len: "2 \<le> length args"
    by (auto simp: join_options_of_def arguments_at_def split: if_splits sum.splits)
  with jo obtain lk rk where
    "Expression_field_ref (args ! 0) = Some lk" "Expression_field_ref (args ! 1) = Some rk"
    "jo = \<lparr>join_type = jt, left_keys = [lk], right_keys = [rk], key_cmp = [cmp]\<rparr>"
    by (auto simp: join_options_of_def arguments_at_def raise_def
          split: if_splits sum.splits option.splits)
  then show ?thesis
    using call names len by (blast dest: Expression_field_ref_Some)
next
  case (literal d)
  with assms show ?thesis by (simp add: join_options_FromExpression_def raise_def)
next
  case (field_ref r)
  with assms show ?thesis by (simp add: join_options_FromExpression_def raise_def)
qed

lemma FromProto_kJoin_Inr:
  assumes "FromProto env (kJoin h l r x t) = Inr d"
  shows "\<exists>left_rel right_rel jt dl dr sx ex jo.
           CheckRelCommon h = Inr () \<and> l = Some left_rel \<and> r = Some right_rel \<and>
           join_type_switch t = Inr jt \<and>
           FromProto env left_rel = Inr dl \<and> FromProto env right_rel = Inr dr \<and>
           x = Some sx \<and> Expression_FromProto env sx = Inr ex \<and>
           join_options_FromExpression env jt ex = Inr jo \<and>
           d = Declaration ''hashjoin'' (HashJoinNodeOptionsOf jo) [dl, dr]"
  using assms
  by (auto simp: raise_def lift_def split: sum.splits option.splits)

lemma FromProto_DeclarationInfo_kJoin_Inr:
  assumes "FromProto_DeclarationInfo env (kJoin h l r x t) = Inr d"
  shows "\<exists>left_rel right_rel jt dl dr sx ex jo.
           CheckRelCommon h = Inr () \<and> l = Some left_rel \<and> r = Some right_rel \<and>
           join_type_switch t = Inr jt \<and>
           FromProto_DeclarationInfo env left_rel = Inr dl \<and>
           FromProto_DeclarationInfo env right_rel = Inr dr \<and>
           x = Some sx \<and> Expression_FromProto env sx = Inr ex \<and>
           join_options_FromExpression env jt ex = Inr jo \<and>
           d = \<lparr>declaration' = Declaration ''hashjoin'' (HashJoinNodeOptionsOf jo)
                                  [declaration' dl, declaration' dr],
                num_columns = num_columns dl + num_columns dr\<rparr>"
  using assms
  by (auto simp: raise_def lift_def split: sum.splits option.splits)

lemma CheckRelCommon_cases:
  "CheckRelCommon h = Inr () \<or> (\<exists>m. CheckRelCommon h = Inl (Error (Status NotImplemented m)))"
  by (cases "common h")
     (simp_all add: CheckRelCommon_def CheckRelCommon_common_def raise_def)


subsection \<open>The claims\<close>



text \<open>
  C2. For every join rel that the translation accepts, in both revisions: the result is a
  \<open>hashjoin\<close> declaration with exactly two inputs, the translation of the left relation
  first and the translation of the right relation second; the translated expression is
  a call with at least two arguments, the left key is the field reference that is its
  first argument and the right key the field reference that is its second argument.
\<close>

theorem C2_join_inputs_and_keys:
  "(FromProto env (kJoin h l r x t) = Inr d \<longrightarrow>
      (\<exists>left_rel right_rel dl dr sx fname args lk rk jo.
         l = Some left_rel \<and> r = Some right_rel \<and>
         FromProto env left_rel = Inr dl \<and> FromProto env right_rel = Inr dr \<and>
         factory_name d = ''hashjoin'' \<and> inputs d = [dl, dr] \<and>
         x = Some sx \<and> Expression_FromProto env sx = Inr (call fname args) \<and>
         2 \<le> length args \<and> args ! 0 = field_ref lk \<and> args ! 1 = field_ref rk \<and>
         options d = HashJoinNodeOptionsOf jo \<and> left_keys jo = [lk] \<and> right_keys jo = [rk])) \<and>
   (FromProto_DeclarationInfo env (kJoin h l r x t) = Inr i \<longrightarrow>
      (\<exists>left_rel right_rel il ir sx fname args lk rk jo.
         l = Some left_rel \<and> r = Some right_rel \<and>
         FromProto_DeclarationInfo env left_rel = Inr il \<and>
         FromProto_DeclarationInfo env right_rel = Inr ir \<and>
         factory_name (declaration' i) = ''hashjoin'' \<and>
         inputs (declaration' i) = [declaration' il, declaration' ir] \<and>
         x = Some sx \<and> Expression_FromProto env sx = Inr (call fname args) \<and>
         2 \<le> length args \<and> args ! 0 = field_ref lk \<and> args ! 1 = field_ref rk \<and>
         options (declaration' i) = HashJoinNodeOptionsOf jo \<and>
         left_keys jo = [lk] \<and> right_keys jo = [rk]))"
proof (intro conjI impI)
  assume "FromProto env (kJoin h l r x t) = Inr d"
  from FromProto_kJoin_Inr[OF this] obtain left_rel right_rel jt dl dr sx ex jo where
    *: "l = Some left_rel" "r = Some right_rel" "FromProto env left_rel = Inr dl"
       "FromProto env right_rel = Inr dr" "x = Some sx" "Expression_FromProto env sx = Inr ex"
       "join_options_FromExpression env jt ex = Inr jo"
       "d = Declaration ''hashjoin'' (HashJoinNodeOptionsOf jo) [dl, dr]"
    by blast
  from join_options_FromExpression_Inr[OF *(7)] obtain fname args lk rk where
    "ex = call fname args" "2 \<le> length args" "args ! 0 = field_ref lk"
    "args ! 1 = field_ref rk" "left_keys jo = [lk]" "right_keys jo = [rk]"
    by auto
  with * show "\<exists>left_rel right_rel dl dr sx fname args lk rk jo.
         l = Some left_rel \<and> r = Some right_rel \<and>
         FromProto env left_rel = Inr dl \<and> FromProto env right_rel = Inr dr \<and>
         factory_name d = ''hashjoin'' \<and> inputs d = [dl, dr] \<and>
         x = Some sx \<and> Expression_FromProto env sx = Inr (call fname args) \<and>
         2 \<le> length args \<and> args ! 0 = field_ref lk \<and> args ! 1 = field_ref rk \<and>
         options d = HashJoinNodeOptionsOf jo \<and> left_keys jo = [lk] \<and> right_keys jo = [rk]"
    by simp
next
  assume "FromProto_DeclarationInfo env (kJoin h l r x t) = Inr i"
  from FromProto_DeclarationInfo_kJoin_Inr[OF this]
  obtain left_rel right_rel jt il ir sx ex jo where
    *: "l = Some left_rel" "r = Some right_rel"
       "FromProto_DeclarationInfo env left_rel = Inr il"
       "FromProto_DeclarationInfo env right_rel = Inr ir"
       "x = Some sx" "Expression_FromProto env sx = Inr ex"
       "join_options_FromExpression env jt ex = Inr jo"
       "i = \<lparr>declaration' = Declaration ''hashjoin'' (HashJoinNodeOptionsOf jo)
                                [declaration' il, declaration' ir],
              num_columns = num_columns il + num_columns ir\<rparr>"
    by blast
  from join_options_FromExpression_Inr[OF *(7)] obtain fname args lk rk where
    "ex = call fname args" "2 \<le> length args" "args ! 0 = field_ref lk"
    "args ! 1 = field_ref rk" "left_keys jo = [lk]" "right_keys jo = [rk]"
    by auto
  with * show "\<exists>left_rel right_rel il ir sx fname args lk rk jo.
         l = Some left_rel \<and> r = Some right_rel \<and>
         FromProto_DeclarationInfo env left_rel = Inr il \<and>
         FromProto_DeclarationInfo env right_rel = Inr ir \<and>
         factory_name (declaration' i) = ''hashjoin'' \<and>
         inputs (declaration' i) = [declaration' il, declaration' ir] \<and>
         x = Some sx \<and> Expression_FromProto env sx = Inr (call fname args) \<and>
         2 \<le> length args \<and> args ! 0 = field_ref lk \<and> args ! 1 = field_ref rk \<and>
         options (declaration' i) = HashJoinNodeOptionsOf jo \<and>
         left_keys jo = [lk] \<and> right_keys jo = [rk]"
    by simp
qed

theorem C2_join_inputs_and_keys_witness:
  "FromProto example_env (example_join no_header (call ''equal'' example_keys) JOIN_TYPE_INNER) =
     Inr (Declaration ''hashjoin''
           (HashJoinNodeOptionsOf
             \<lparr>join_type = INNER, left_keys = [FieldPath [0]], right_keys = [FieldPath [5]],
              key_cmp = [EQ]\<rparr>)
           [example_left_scan, example_right_scan]) \<and>
   (\<exists>dl dr fname args lk rk.
      FromProto example_env example_left = Inr dl \<and>
      FromProto example_env example_right = Inr dr \<and>
      Expression_FromProto example_env (call ''equal'' example_keys) = Inr (call fname args) \<and>
      args ! 0 = field_ref lk \<and> args ! 1 = field_ref rk \<and>
      [dl, dr] = [example_left_scan, example_right_scan] \<and>
      [lk] = [FieldPath [0]] \<and> [rk] = [FieldPath [5]]) \<and>
   (\<exists>i il ir. FromProto_DeclarationInfo example_env
       (example_join no_header (call ''equal'' example_keys) JOIN_TYPE_INNER) = Inr i \<and>
      FromProto_DeclarationInfo example_env example_left = Inr il \<and>
      FromProto_DeclarationInfo example_env example_right = Inr ir \<and>
      inputs (declaration' i) = [declaration' il, declaration' ir])"
proof -
  let ?j = "example_join no_header (call ''equal'' example_keys) JOIN_TYPE_INNER"
  let ?d = "Declaration ''hashjoin''
           (HashJoinNodeOptionsOf
             \<lparr>join_type = INNER, left_keys = [FieldPath [0]], right_keys = [FieldPath [5]],
              key_cmp = [EQ]\<rparr>)
           [example_left_scan, example_right_scan]"
  have a: "FromProto example_env ?j = Inr ?d"
    by (simp add: example_join_FromProto example_keys_options join_type_switch_def)
  have b: "FromProto_DeclarationInfo example_env ?j =
      Inr \<lparr>declaration' = ?d, num_columns = 6\<rparr>"
    by (simp add: example_join_info example_keys_options join_type_switch_def)
  have a': "FromProto example_env (kJoin no_header (Some example_left) (Some example_right)
      (Some (call ''equal'' example_keys)) JOIN_TYPE_INNER) = Inr ?d"
    using a by (simp add: example_join_def)
  have b': "FromProto_DeclarationInfo example_env (kJoin no_header (Some example_left)
      (Some example_right) (Some (call ''equal'' example_keys)) JOIN_TYPE_INNER) =
      Inr \<lparr>declaration' = ?d, num_columns = 6\<rparr>"
    using b by (simp add: example_join_def)
  from C2_join_inputs_and_keys[THEN conjunct1, THEN mp, OF a']
  have 1: "\<exists>dl dr fname args lk rk.
      FromProto example_env example_left = Inr dl \<and>
      FromProto example_env example_right = Inr dr \<and>
      Expression_FromProto example_env (call ''equal'' example_keys) = Inr (call fname args) \<and>
      args ! 0 = field_ref lk \<and> args ! 1 = field_ref rk \<and>
      [dl, dr] = [example_left_scan, example_right_scan] \<and>
      [lk] = [FieldPath [0]] \<and> [rk] = [FieldPath [5]]"
    by (elim exE conjE) force
  from C2_join_inputs_and_keys[THEN conjunct2, THEN mp, OF b']
  have 2: "\<exists>i il ir. FromProto_DeclarationInfo example_env ?j = Inr i \<and>
      FromProto_DeclarationInfo example_env example_left = Inr il \<and>
      FromProto_DeclarationInfo example_env example_right = Inr ir \<and>
      inputs (declaration' i) = [declaration' il, declaration' ir]"
    using b by (elim exE conjE) force
  from a 1 2 show ?thesis by blast
qed

text \<open>
  C6. For every join rel that the second revision accepts, the result is a \<open>hashjoin\<close>
  declaration whose inputs are the translated left input first and the translated right
  input second, and the declared number of output columns is the number of columns of
  the translated left input plus the number of columns of the translated right input.
\<close>

theorem C6_join_num_columns:
  "FromProto_DeclarationInfo env (kJoin h l r x t) = Inr i \<Longrightarrow>
   \<exists>left_rel right_rel il ir.
     l = Some left_rel \<and> r = Some right_rel \<and>
     FromProto_DeclarationInfo env left_rel = Inr il \<and>
     FromProto_DeclarationInfo env right_rel = Inr ir \<and>
     factory_name (declaration' i) = ''hashjoin'' \<and>
     inputs (declaration' i) = [declaration' il, declaration' ir] \<and>
     num_columns i = num_columns il + num_columns ir"
  by (drule FromProto_DeclarationInfo_kJoin_Inr) auto

theorem C6_join_num_columns_witness:
  "\<exists>i il ir.
     FromProto_DeclarationInfo example_env
       (example_join no_header (call ''equal'' example_keys) JOIN_TYPE_INNER) = Inr i \<and>
     FromProto_DeclarationInfo example_env example_left = Inr il \<and>
     FromProto_DeclarationInfo example_env example_right = Inr ir \<and>
     factory_name (declaration' i) = ''hashjoin'' \<and>
     inputs (declaration' i) = [declaration' il, declaration' ir] \<and>
     declaration' il = example_left_scan \<and> declaration' ir = example_right_scan \<and>
     num_columns il = 3 \<and> num_columns ir = 3 \<and> num_columns i = 6 \<and>
     num_columns i = num_columns il + num_columns ir"
proof -
  let ?j = "example_join no_header (call ''equal'' example_keys) JOIN_TYPE_INNER"
  obtain i where a: "FromProto_DeclarationInfo example_env ?j = Inr i" "num_columns i = 6"
    by (simp add: example_join_info example_keys_options join_type_switch_def)
  from C6_join_num_columns[OF a(1)[unfolded example_join_def]] a
  show ?thesis
    by (auto simp: example_left_info example_right_info)
qed

subsection \<open>Filter and project rels\<close>

lemma Expressions_FromProto_Inr:
  "Expressions_FromProto env xs = Inr ys \<longleftrightarrow> map (Expression_FromProto env) xs = map Inr ys"
proof (induction xs arbitrary: ys)
  case Nil
  show ?case by auto
next
  case (Cons x xs)
  show ?case
  proof (cases ys)
    case Nil
    then show ?thesis by (simp add: lift_def split: sum.splits)
  next
    case (Cons y ys')
    with Cons.IH[of ys'] show ?thesis by (auto simp: lift_def split: sum.splits)
  qed
qed

lemma prefix_field_refs_upt:
  "prefix_field_refs (int n) = map (\<lambda>k. field_ref (FieldPath [int k])) [0..<n]"
proof (induction n)
  case 0
  show ?case by (simp add: prefix_field_refs_def)
next
  case (Suc n)
  have "[0..int (Suc n) - 1] = [0..int n - 1] @ [int n]"
    using upto_rec2[of 0 "int n"] by simp
  with Suc show ?case by (simp add: prefix_field_refs_def)
qed

lemma prefix_field_refs_nonneg:
  "0 \<le> n \<Longrightarrow> prefix_field_refs n = map (\<lambda>k. field_ref (FieldPath [int k])) [0..<nat n]"
  using prefix_field_refs_upt[of "nat n"] by simp

lemma FromProto_kFilter_Inr:
  "FromProto env (kFilter h inp cond) = Inr d \<longleftrightarrow>
     CheckRelCommon h = Inr () \<and>
     (\<exists>input_rel c din ex.
        inp = Some input_rel \<and> cond = Some c \<and>
        FromProto env input_rel = Inr din \<and> Expression_FromProto env c = Inr ex \<and>
        d = Declaration ''filter'' (FilterNodeOptions ex) [din])"
  by (auto simp: raise_def lift_def Sequence_pair split: sum.splits option.splits)

lemma FromProto_DeclarationInfo_kFilter_Inr:
  "FromProto_DeclarationInfo env (kFilter h inp cond) = Inr i \<longleftrightarrow>
     CheckRelCommon h = Inr () \<and>
     (\<exists>input_rel c ii ex.
        inp = Some input_rel \<and> cond = Some c \<and>
        FromProto_DeclarationInfo env input_rel = Inr ii \<and>
        Expression_FromProto env c = Inr ex \<and>
        i = \<lparr>declaration' = Declaration ''filter'' (FilterNodeOptions ex) [declaration' ii],
             num_columns = num_columns ii\<rparr>)"
  by (auto simp: raise_def lift_def Sequence_pair split: sum.splits option.splits)

lemma FromProto_kProject_Inr:
  "FromProto env (kProject h inp exprs) = Inr d \<longleftrightarrow>
     CheckRelCommon h = Inr () \<and>
     (\<exists>input_rel din translated.
        inp = Some input_rel \<and> FromProto env input_rel = Inr din \<and>
        Expressions_FromProto env exprs = Inr translated \<and>
        d = Declaration ''project'' (ProjectNodeOptions translated) [din])"
  by (auto simp: raise_def lift_def Sequence_pair split: sum.splits option.splits)

lemma FromProto_DeclarationInfo_kProject_Inr:
  "FromProto_DeclarationInfo env (kProject h inp exprs) = Inr i \<longleftrightarrow>
     CheckRelCommon h = Inr () \<and>
     (\<exists>input_rel ii translated.
        inp = Some input_rel \<and> FromProto_DeclarationInfo env input_rel = Inr ii \<and>
        Expressions_FromProto env exprs = Inr translated \<and>
        i = \<lparr>declaration' =
                Declaration ''project''
                  (ProjectNodeOptions (prefix_field_refs (num_columns ii) @ translated))
                  [declaration' ii],
             num_columns = int (length (prefix_field_refs (num_columns ii) @ translated))\<rparr>)"
  by (auto simp: raise_def lift_def Sequence_pair split: sum.splits option.splits)

lemma FromProto_DeclarationInfo_kAggregate_Inr:
  "FromProto_DeclarationInfo env (kAggregate h inp gs ms) = Inr i \<Longrightarrow>
     0 \<le> num_columns i"
  by (auto simp: raise_def lift_def Sequence_pair split: sum.splits option.splits prod.splits)

lemma num_columns_nonneg:
  "FromProto_DeclarationInfo env rel = Inr i \<Longrightarrow> 0 \<le> num_columns i"
proof (induction rel arbitrary: i)
  case (kRead read)
  then show ?case
    by (auto simp: FromProto_read_info_def lift_def split: sum.splits prod.splits)
next
  case (kFilter h inp cond)
  from kFilter.prems[THEN FromProto_DeclarationInfo_kFilter_Inr[THEN iffD1]]
  obtain input_rel ii where
    "inp = Some input_rel" "FromProto_DeclarationInfo env input_rel = Inr ii"
    "num_columns i = num_columns ii"
    by auto
  with kFilter.IH show ?case by auto
next
  case (kProject h inp exprs)
  from kProject.prems[THEN FromProto_DeclarationInfo_kProject_Inr[THEN iffD1]]
  show ?case by auto
next
  case (kJoin h l r x t)
  from FromProto_DeclarationInfo_kJoin_Inr[OF kJoin.prems] obtain left_rel right_rel il ir where
    "l = Some left_rel" "r = Some right_rel"
    "FromProto_DeclarationInfo env left_rel = Inr il"
    "FromProto_DeclarationInfo env right_rel = Inr ir"
    "num_columns i = num_columns il + num_columns ir"
    by auto
  with kJoin.IH show ?case by auto
next
  case (kAggregate h inp gs ms)
  from FromProto_DeclarationInfo_kAggregate_Inr[OF kAggregate.prems] show ?case .
next
  case kOther
  then show ?case by (simp add: raise_def)
qed

lemma example_project_info:
  "FromProto_DeclarationInfo example_env (kProject no_header (Some example_left) [example_condition]) =
     Inr \<lparr>declaration' =
            Declaration ''project''
              (ProjectNodeOptions
                [field_ref (FieldPath [0]), field_ref (FieldPath [1]), field_ref (FieldPath [2]),
                 example_condition])
              [example_left_scan],
          num_columns = 4\<rparr>"
  by (simp add: CheckRelCommon_no_header example_left_info example_Expression_FromProto
        lift_def Sequence_pair prefix_field_refs_def upto.simps)

text \<open>
  C8. For every project rel that the second revision accepts: the expressions of the
  \<open>project\<close> declaration are the field references \<open>0, \<dots>, n - 1\<close>, in this order, for
  the \<open>n\<close> columns of the translated input, followed by the translations of the rel's own
  expressions in their order; the declared number of output columns is the number of
  columns of the input plus the number of expressions of the rel.
\<close>

theorem C8_project_prefix:
  "FromProto_DeclarationInfo env (kProject h inp exprs) = Inr i \<Longrightarrow>
   \<exists>input_rel ii translated n.
     inp = Some input_rel \<and> FromProto_DeclarationInfo env input_rel = Inr ii \<and>
     num_columns ii = int n \<and>
     map (Expression_FromProto env) exprs = map Inr translated \<and>
     factory_name (declaration' i) = ''project'' \<and>
     options (declaration' i) =
       ProjectNodeOptions (map (\<lambda>k. field_ref (FieldPath [int k])) [0..<n] @ translated) \<and>
     inputs (declaration' i) = [declaration' ii] \<and>
     num_columns i = num_columns ii + int (length exprs)"
proof -
  assume "FromProto_DeclarationInfo env (kProject h inp exprs) = Inr i"
  from this[THEN FromProto_DeclarationInfo_kProject_Inr[THEN iffD1]]
  obtain input_rel ii translated where
    *: "inp = Some input_rel" "FromProto_DeclarationInfo env input_rel = Inr ii"
       "Expressions_FromProto env exprs = Inr translated"
       "i = \<lparr>declaration' =
                Declaration ''project''
                  (ProjectNodeOptions (prefix_field_refs (num_columns ii) @ translated))
                  [declaration' ii],
             num_columns = int (length (prefix_field_refs (num_columns ii) @ translated))\<rparr>"
    by auto
  from num_columns_nonneg[OF *(2)] obtain n where n: "num_columns ii = int n"
    using nonneg_int_cases by blast
  from *(3) have tr: "map (Expression_FromProto env) exprs = map Inr translated"
    by (simp add: Expressions_FromProto_Inr)
  then have "length exprs = length translated"
    by (rule map_eq_imp_length_eq)
  with * n tr show ?thesis
    by (simp add: prefix_field_refs_upt)
qed

theorem C8_project_prefix_witness:
  "FromProto_DeclarationInfo example_env
     (kProject no_header (Some example_left) [example_condition]) =
     Inr \<lparr>declaration' =
            Declaration ''project''
              (ProjectNodeOptions
                [field_ref (FieldPath [0]), field_ref (FieldPath [1]), field_ref (FieldPath [2]),
                 example_condition])
              [example_left_scan],
          num_columns = 4\<rparr> \<and>
   (\<exists>ii. FromProto_DeclarationInfo example_env example_left = Inr ii \<and>
         num_columns ii = 3 \<and>
         map (\<lambda>k. field_ref (FieldPath [int k])) [0..<nat (num_columns ii)] @
           [example_condition] =
           [field_ref (FieldPath [0]), field_ref (FieldPath [1]), field_ref (FieldPath [2]),
            example_condition] \<and>
         4 = num_columns ii + int (length [example_condition]))"
proof (rule conjI)
  show "FromProto_DeclarationInfo example_env
     (kProject no_header (Some example_left) [example_condition]) =
     Inr \<lparr>declaration' =
            Declaration ''project''
              (ProjectNodeOptions
                [field_ref (FieldPath [0]), field_ref (FieldPath [1]), field_ref (FieldPath [2]),
                 example_condition])
              [example_left_scan],
          num_columns = 4\<rparr>"
    by (rule example_project_info)
  from C8_project_prefix[OF example_project_info]
  show "\<exists>ii. FromProto_DeclarationInfo example_env example_left = Inr ii \<and>
         num_columns ii = 3 \<and>
         map (\<lambda>k. field_ref (FieldPath [int k])) [0..<nat (num_columns ii)] @
           [example_condition] =
           [field_ref (FieldPath [0]), field_ref (FieldPath [1]), field_ref (FieldPath [2]),
            example_condition] \<and>
         4 = num_columns ii + int (length [example_condition])"
    by (auto simp: example_left_info example_Expression_FromProto)
qed

lemma example_filter_FromProto:
  "FromProto example_env (kFilter no_header (Some example_left) (Some example_condition)) =
     Inr (Declaration ''filter'' (FilterNodeOptions example_condition) [example_left_scan])"
  by (simp add: CheckRelCommon_no_header example_left_FromProto example_Expression_FromProto
        lift_def Sequence_pair)

lemma example_filter_info:
  "FromProto_DeclarationInfo example_env
     (kFilter no_header (Some example_left) (Some example_condition)) =
     Inr \<lparr>declaration' =
            Declaration ''filter'' (FilterNodeOptions example_condition) [example_left_scan],
          num_columns = 3\<rparr>"
  by (simp add: CheckRelCommon_no_header example_left_info example_Expression_FromProto
        lift_def Sequence_pair)

lemma example_project_FromProto:
  "FromProto example_env (kProject no_header (Some example_left) [example_condition]) =
     Inr (Declaration ''project'' (ProjectNodeOptions [example_condition]) [example_left_scan])"
  by (simp add: CheckRelCommon_no_header example_left_FromProto example_Expression_FromProto
        lift_def Sequence_pair)

text \<open>
  C4, as amended. A filter rel that has an input relation and a condition is accepted
  exactly when its common part passes \<open>CheckRelCommon\<close> and its input relation and its
  condition translate; the result is then the sequence of the translated input and of
  the \<open>filter\<close> declaration that carries the translated condition, which is that
  declaration with the translated input as its only input. The same holds for a project
  rel with an input relation and the \<open>project\<close> declaration, in both revisions.
\<close>

theorem C4_filter_project_sequence:
  "(FromProto env (kFilter h (Some input_rel) (Some c)) = Inr d \<longleftrightarrow>
      CheckRelCommon h = Inr () \<and>
      (\<exists>din ex. FromProto env input_rel = Inr din \<and> Expression_FromProto env c = Inr ex \<and>
         Sequence [din, Declaration ''filter'' (FilterNodeOptions ex) []] = Inr d \<and>
         factory_name d = ''filter'' \<and> options d = FilterNodeOptions ex \<and> inputs d = [din])) \<and>
   (FromProto env (kProject h (Some input_rel) exprs) = Inr d' \<longleftrightarrow>
      CheckRelCommon h = Inr () \<and>
      (\<exists>din translated.
         FromProto env input_rel = Inr din \<and>
         Expressions_FromProto env exprs = Inr translated \<and>
         Sequence [din, Declaration ''project'' (ProjectNodeOptions translated) []] = Inr d' \<and>
         factory_name d' = ''project'' \<and> inputs d' = [din])) \<and>
   (FromProto_DeclarationInfo env (kFilter h (Some input_rel) (Some c)) = Inr i \<longleftrightarrow>
      CheckRelCommon h = Inr () \<and>
      (\<exists>ii ex. FromProto_DeclarationInfo env input_rel = Inr ii \<and>
         Expression_FromProto env c = Inr ex \<and>
         Sequence [declaration' ii, Declaration ''filter'' (FilterNodeOptions ex) []] =
           Inr (declaration' i) \<and>
         factory_name (declaration' i) = ''filter'' \<and>
         options (declaration' i) = FilterNodeOptions ex \<and>
         inputs (declaration' i) = [declaration' ii] \<and>
         num_columns i = num_columns ii)) \<and>
   (FromProto_DeclarationInfo env (kProject h (Some input_rel) exprs) = Inr i' \<longleftrightarrow>
      CheckRelCommon h = Inr () \<and>
      (\<exists>ii translated.
         FromProto_DeclarationInfo env input_rel = Inr ii \<and>
         Expressions_FromProto env exprs = Inr translated \<and>
         Sequence [declaration' ii,
                   Declaration ''project''
                     (ProjectNodeOptions (prefix_field_refs (num_columns ii) @ translated)) []] =
           Inr (declaration' i') \<and>
         factory_name (declaration' i') = ''project'' \<and>
         inputs (declaration' i') = [declaration' ii] \<and>
         num_columns i' = int (length (prefix_field_refs (num_columns ii) @ translated))))"
proof (intro conjI)
  show "FromProto env (kFilter h (Some input_rel) (Some c)) = Inr d \<longleftrightarrow>
      CheckRelCommon h = Inr () \<and>
      (\<exists>din ex. FromProto env input_rel = Inr din \<and> Expression_FromProto env c = Inr ex \<and>
         Sequence [din, Declaration ''filter'' (FilterNodeOptions ex) []] = Inr d \<and>
         factory_name d = ''filter'' \<and> options d = FilterNodeOptions ex \<and> inputs d = [din])"
    unfolding FromProto_kFilter_Inr by (auto simp: Sequence_pair)
  show "FromProto env (kProject h (Some input_rel) exprs) = Inr d' \<longleftrightarrow>
      CheckRelCommon h = Inr () \<and>
      (\<exists>din translated.
         FromProto env input_rel = Inr din \<and>
         Expressions_FromProto env exprs = Inr translated \<and>
         Sequence [din, Declaration ''project'' (ProjectNodeOptions translated) []] = Inr d' \<and>
         factory_name d' = ''project'' \<and> inputs d' = [din])"
    unfolding FromProto_kProject_Inr by (auto simp: Sequence_pair)
  show "FromProto_DeclarationInfo env (kFilter h (Some input_rel) (Some c)) = Inr i \<longleftrightarrow>
      CheckRelCommon h = Inr () \<and>
      (\<exists>ii ex. FromProto_DeclarationInfo env input_rel = Inr ii \<and>
         Expression_FromProto env c = Inr ex \<and>
         Sequence [declaration' ii, Declaration ''filter'' (FilterNodeOptions ex) []] =
           Inr (declaration' i) \<and>
         factory_name (declaration' i) = ''filter'' \<and>
         options (declaration' i) = FilterNodeOptions ex \<and>
         inputs (declaration' i) = [declaration' ii] \<and>
         num_columns i = num_columns ii)"
    unfolding FromProto_DeclarationInfo_kFilter_Inr by (cases i) (auto simp: Sequence_pair)
  show "FromProto_DeclarationInfo env (kProject h (Some input_rel) exprs) = Inr i' \<longleftrightarrow>
      CheckRelCommon h = Inr () \<and>
      (\<exists>ii translated.
         FromProto_DeclarationInfo env input_rel = Inr ii \<and>
         Expressions_FromProto env exprs = Inr translated \<and>
         Sequence [declaration' ii,
                   Declaration ''project''
                     (ProjectNodeOptions (prefix_field_refs (num_columns ii) @ translated)) []] =
           Inr (declaration' i') \<and>
         factory_name (declaration' i') = ''project'' \<and>
         inputs (declaration' i') = [declaration' ii] \<and>
         num_columns i' = int (length (prefix_field_refs (num_columns ii) @ translated)))"
    unfolding FromProto_DeclarationInfo_kProject_Inr by (cases i') (auto simp: Sequence_pair)
qed

theorem C4_filter_project_sequence_witness:
  "CheckRelCommon no_header = Inr () \<and>
   (\<exists>din ex. FromProto example_env example_left = Inr din \<and>
      Expression_FromProto example_env example_condition = Inr ex \<and>
      Sequence [din, Declaration ''filter'' (FilterNodeOptions ex) []] =
        Inr (Declaration ''filter'' (FilterNodeOptions example_condition) [example_left_scan])) \<and>
   (\<exists>din translated. FromProto example_env example_left = Inr din \<and>
      Expressions_FromProto example_env [example_condition] = Inr translated \<and>
      Sequence [din, Declaration ''project'' (ProjectNodeOptions translated) []] =
        Inr (Declaration ''project'' (ProjectNodeOptions [example_condition])
              [example_left_scan])) \<and>
   (\<exists>ii. FromProto_DeclarationInfo example_env example_left = Inr ii \<and>
      [declaration' ii] = [example_left_scan] \<and> 3 = num_columns ii)"
proof -
  note c4 = C4_filter_project_sequence[of example_env no_header example_left]
  from c4[THEN conjunct1, THEN iffD1, OF example_filter_FromProto]
  have 1: "CheckRelCommon no_header = Inr () \<and>
   (\<exists>din ex. FromProto example_env example_left = Inr din \<and>
      Expression_FromProto example_env example_condition = Inr ex \<and>
      Sequence [din, Declaration ''filter'' (FilterNodeOptions ex) []] =
        Inr (Declaration ''filter'' (FilterNodeOptions example_condition) [example_left_scan]))"
    by blast
  from c4[THEN conjunct2, THEN conjunct1, THEN iffD1, OF example_project_FromProto]
  have 2: "\<exists>din translated. FromProto example_env example_left = Inr din \<and>
      Expressions_FromProto example_env [example_condition] = Inr translated \<and>
      Sequence [din, Declaration ''project'' (ProjectNodeOptions translated) []] =
        Inr (Declaration ''project'' (ProjectNodeOptions [example_condition])
              [example_left_scan])"
    by blast
  from c4[THEN conjunct2, THEN conjunct2, THEN conjunct1, THEN iffD1, OF example_filter_info]
  have 3: "\<exists>ii. FromProto_DeclarationInfo example_env example_left = Inr ii \<and>
      [declaration' ii] = [example_left_scan] \<and> 3 = num_columns ii"
    by (elim exE conjE) force
  from 1 2 3 show ?thesis by blast
qed

theorem C4_counterexample:
  "FromProto example_env (kFilter emit_header (Some example_left) (Some example_condition)) =
     Inl (Error (Status NotImplemented ''substrait::RelCommon::Emit'')) \<and>
   FromProto_DeclarationInfo example_env
     (kFilter emit_header (Some example_left) (Some example_condition)) =
     Inl (Error (Status NotImplemented ''substrait::RelCommon::Emit'')) \<and>
   FromProto example_env example_left = Inr example_left_scan \<and>
   Expression_FromProto example_env example_condition = Inr example_condition"
  by (simp add: CheckRelCommon_emit_header example_left_FromProto example_Expression_FromProto)

subsection \<open>Rejected rels\<close>

lemma kFilter_no_input:
  "FromProto env (kFilter h None cond) =
     (case CheckRelCommon h of
        Inl e \<Rightarrow> Inl e
      | Inr _ \<Rightarrow> Inl (Error (Status Invalid ''substrait::FilterRel with no input relation'')))"
  "FromProto_DeclarationInfo env (kFilter h None cond) =
     (case CheckRelCommon h of
        Inl e \<Rightarrow> Inl e
      | Inr _ \<Rightarrow> Inl (Error (Status Invalid ''substrait::FilterRel with no input relation'')))"
  by (simp_all add: raise_def split: sum.splits)

lemma kFilter_no_condition:
  "FromProto env (kFilter h (Some input_rel) None) =
     (case CheckRelCommon h of
        Inl e \<Rightarrow> Inl e
      | Inr _ \<Rightarrow>
          (case FromProto env input_rel of
             Inl e \<Rightarrow> Inl e
           | Inr _ \<Rightarrow>
               Inl (Error (Status Invalid ''substrait::FilterRel with no condition expression''))))"
  "FromProto_DeclarationInfo env (kFilter h (Some input_rel) None) =
     (case CheckRelCommon h of
        Inl e \<Rightarrow> Inl e
      | Inr _ \<Rightarrow>
          (case FromProto_DeclarationInfo env input_rel of
             Inl e \<Rightarrow> Inl e
           | Inr _ \<Rightarrow>
               Inl (Error (Status Invalid ''substrait::FilterRel with no condition expression''))))"
  by (simp_all add: raise_def split: sum.splits)

lemma kJoin_no_left:
  "FromProto env (kJoin h None r x t) =
     (case CheckRelCommon h of
        Inl e \<Rightarrow> Inl e
      | Inr _ \<Rightarrow> Inl (Error (Status Invalid ''substrait::JoinRel with no left relation'')))"
  "FromProto_DeclarationInfo env (kJoin h None r x t) =
     (case CheckRelCommon h of
        Inl e \<Rightarrow> Inl e
      | Inr _ \<Rightarrow> Inl (Error (Status Invalid ''substrait::JoinRel with no left relation'')))"
  by (simp_all add: raise_def split: sum.splits)

lemma kJoin_no_right:
  "FromProto env (kJoin h (Some left_rel) None x t) =
     (case CheckRelCommon h of
        Inl e \<Rightarrow> Inl e
      | Inr _ \<Rightarrow> Inl (Error (Status Invalid ''substrait::JoinRel with no right relation'')))"
  "FromProto_DeclarationInfo env (kJoin h (Some left_rel) None x t) =
     (case CheckRelCommon h of
        Inl e \<Rightarrow> Inl e
      | Inr _ \<Rightarrow> Inl (Error (Status Invalid ''substrait::JoinRel with no right relation'')))"
  by (simp_all add: raise_def split: sum.splits)

lemma kJoin_no_expression:
  "FromProto env (kJoin h (Some left_rel) (Some right_rel) None t) =
     (case CheckRelCommon h of
        Inl e \<Rightarrow> Inl e
      | Inr _ \<Rightarrow>
          (case join_type_switch t of
             Inl e \<Rightarrow> Inl e
           | Inr _ \<Rightarrow>
               (case FromProto env left_rel of
                  Inl e \<Rightarrow> Inl e
                | Inr _ \<Rightarrow>
                    (case FromProto env right_rel of
                       Inl e \<Rightarrow> Inl e
                     | Inr _ \<Rightarrow>
                         Inl (Error (Status Invalid ''substrait::JoinRel with no expression''))))))"
  "FromProto_DeclarationInfo env (kJoin h (Some left_rel) (Some right_rel) None t) =
     (case CheckRelCommon h of
        Inl e \<Rightarrow> Inl e
      | Inr _ \<Rightarrow>
          (case join_type_switch t of
             Inl e \<Rightarrow> Inl e
           | Inr _ \<Rightarrow>
               (case FromProto_DeclarationInfo env left_rel of
                  Inl e \<Rightarrow> Inl e
                | Inr _ \<Rightarrow>
                    (case FromProto_DeclarationInfo env right_rel of
                       Inl e \<Rightarrow> Inl e
                     | Inr _ \<Rightarrow>
                         Inl (Error (Status Invalid ''substrait::JoinRel with no expression''))))))"
  by (simp_all add: raise_def split: sum.splits)

lemma CheckRelCommon_Inl:
  "CheckRelCommon h = Inl e \<Longrightarrow> \<exists>m. e = Error (Status NotImplemented m)"
  using CheckRelCommon_cases[of h] by auto

lemma join_type_switch_Inl:
  "join_type_switch t = Inl e \<Longrightarrow> \<exists>c m. e = Error (Status c m)"
  by (cases t) (auto simp: join_type_switch_def raise_def)

lemma lift_Inr: "lift r = Inr v \<longleftrightarrow> r = Inr v"
  by (cases r) (simp_all add: lift_def)

lemma lift_Inl: "lift r = Inl e \<Longrightarrow> \<exists>c m. e = Error (Status c m)"
proof (cases r)
  case (Inl s)
  assume "lift r = Inl e"
  with Inl have "e = Error s" by (simp add: lift_def)
  then show ?thesis by (cases s) simp
next
  case (Inr v)
  assume "lift r = Inl e"
  with Inr show ?thesis by (simp add: lift_def)
qed

text \<open>A failure of the translation of a filter rel is an error status, or it is the
  failure of the translation of its input relation.\<close>

lemma kFilter_failure:
  "FromProto env (kFilter h inp cond) = Inl e \<Longrightarrow>
     (\<exists>c m. e = Error (Status c m)) \<or>
     (\<exists>input_rel. inp = Some input_rel \<and> FromProto env input_rel = Inl e)"
  "FromProto_DeclarationInfo env (kFilter h inp cond) = Inl e \<Longrightarrow>
     (\<exists>c m. e = Error (Status c m)) \<or>
     (\<exists>input_rel. inp = Some input_rel \<and> FromProto_DeclarationInfo env input_rel = Inl e)"
  by (auto simp: raise_def Sequence_pair lift_Inr split: sum.splits option.splits
        dest: CheckRelCommon_Inl lift_Inl)

text \<open>A failure of the translation of a join rel is an error status, or the failure of
  the translation of its left or of its right relation, or the failure of the step that
  turns the translated expression into the join options.\<close>

lemma kJoin_failure:
  "FromProto env (kJoin h l r x t) = Inl e \<Longrightarrow>
     (\<exists>c m. e = Error (Status c m)) \<or>
     (\<exists>left_rel. l = Some left_rel \<and> FromProto env left_rel = Inl e) \<or>
     (\<exists>right_rel. r = Some right_rel \<and> FromProto env right_rel = Inl e) \<or>
     (\<exists>sx ex jt. x = Some sx \<and> Expression_FromProto env sx = Inr ex \<and>
        join_options_FromExpression env jt ex = Inl e)"
  "FromProto_DeclarationInfo env (kJoin h l r x t) = Inl e \<Longrightarrow>
     (\<exists>c m. e = Error (Status c m)) \<or>
     (\<exists>left_rel. l = Some left_rel \<and> FromProto_DeclarationInfo env left_rel = Inl e) \<or>
     (\<exists>right_rel. r = Some right_rel \<and> FromProto_DeclarationInfo env right_rel = Inl e) \<or>
     (\<exists>sx ex jt. x = Some sx \<and> Expression_FromProto env sx = Inr ex \<and>
        join_options_FromExpression env jt ex = Inl e)"
  by (auto simp: raise_def lift_Inr split: sum.splits option.splits
        dest: CheckRelCommon_Inl lift_Inl join_type_switch_Inl)

lemma missing_part_rejected:
  "inp = None \<or> cond = None \<Longrightarrow> \<exists>e. FromProto env (kFilter h inp cond) = Inl e"
  "inp = None \<or> cond = None \<Longrightarrow> \<exists>e. FromProto_DeclarationInfo env (kFilter h inp cond) = Inl e"
  "l = None \<or> r = None \<or> x = None \<Longrightarrow> \<exists>e. FromProto env (kJoin h l r x t) = Inl e"
  "l = None \<or> r = None \<or> x = None \<Longrightarrow>
     \<exists>e. FromProto_DeclarationInfo env (kJoin h l r x t) = Inl e"
  by (auto simp: raise_def split: sum.splits option.splits)

lemma missing_relation_status:
  "\<exists>c m. FromProto env (kFilter h None cond) = Inl (Error (Status c m))"
  "\<exists>c m. FromProto_DeclarationInfo env (kFilter h None cond) = Inl (Error (Status c m))"
  "\<exists>c m. FromProto env (kJoin h None r x t) = Inl (Error (Status c m))"
  "\<exists>c m. FromProto_DeclarationInfo env (kJoin h None r x t) = Inl (Error (Status c m))"
  "\<exists>c m. FromProto env (kJoin h l None x t) = Inl (Error (Status c m))"
  "\<exists>c m. FromProto_DeclarationInfo env (kJoin h l None x t) = Inl (Error (Status c m))"
  using CheckRelCommon_cases[of h]
  by (auto simp: raise_def split: option.splits)

lemma missing_condition_failure:
  "\<exists>e. FromProto env (kFilter h inp None) = Inl e \<and>
       ((\<exists>c m. e = Error (Status c m)) \<or>
        (\<exists>input_rel. inp = Some input_rel \<and> FromProto env input_rel = Inl e))"
  "\<exists>e. FromProto_DeclarationInfo env (kFilter h inp None) = Inl e \<and>
       ((\<exists>c m. e = Error (Status c m)) \<or>
        (\<exists>input_rel. inp = Some input_rel \<and>
           FromProto_DeclarationInfo env input_rel = Inl e))"
proof -
  from missing_part_rejected(1)[of inp None env h] obtain e where
    e: "FromProto env (kFilter h inp None) = Inl e" by blast
  from kFilter_failure(1)[OF e] e
  show "\<exists>e. FromProto env (kFilter h inp None) = Inl e \<and>
       ((\<exists>c m. e = Error (Status c m)) \<or>
        (\<exists>input_rel. inp = Some input_rel \<and> FromProto env input_rel = Inl e))"
    by blast
  from missing_part_rejected(2)[of inp None env h] obtain e' where
    e': "FromProto_DeclarationInfo env (kFilter h inp None) = Inl e'" by blast
  from kFilter_failure(2)[OF e'] e'
  show "\<exists>e. FromProto_DeclarationInfo env (kFilter h inp None) = Inl e \<and>
       ((\<exists>c m. e = Error (Status c m)) \<or>
        (\<exists>input_rel. inp = Some input_rel \<and>
           FromProto_DeclarationInfo env input_rel = Inl e))"
    by blast
qed

lemma missing_expression_failure:
  "\<exists>e. FromProto env (kJoin h l r None t) = Inl e \<and>
       ((\<exists>c m. e = Error (Status c m)) \<or>
        (\<exists>left_rel. l = Some left_rel \<and> FromProto env left_rel = Inl e) \<or>
        (\<exists>right_rel. r = Some right_rel \<and> FromProto env right_rel = Inl e))"
  "\<exists>e. FromProto_DeclarationInfo env (kJoin h l r None t) = Inl e \<and>
       ((\<exists>c m. e = Error (Status c m)) \<or>
        (\<exists>left_rel. l = Some left_rel \<and> FromProto_DeclarationInfo env left_rel = Inl e) \<or>
        (\<exists>right_rel. r = Some right_rel \<and>
           FromProto_DeclarationInfo env right_rel = Inl e))"
proof -
  from missing_part_rejected(3)[of l r None env h t] obtain e where
    e: "FromProto env (kJoin h l r None t) = Inl e" by blast
  from kJoin_failure(1)[OF e] e
  show "\<exists>e. FromProto env (kJoin h l r None t) = Inl e \<and>
       ((\<exists>c m. e = Error (Status c m)) \<or>
        (\<exists>left_rel. l = Some left_rel \<and> FromProto env left_rel = Inl e) \<or>
        (\<exists>right_rel. r = Some right_rel \<and> FromProto env right_rel = Inl e))"
    by blast
  from missing_part_rejected(4)[of l r None env h t] obtain e' where
    e': "FromProto_DeclarationInfo env (kJoin h l r None t) = Inl e'" by blast
  from kJoin_failure(2)[OF e'] e'
  show "\<exists>e. FromProto_DeclarationInfo env (kJoin h l r None t) = Inl e \<and>
       ((\<exists>c m. e = Error (Status c m)) \<or>
        (\<exists>left_rel. l = Some left_rel \<and> FromProto_DeclarationInfo env left_rel = Inl e) \<or>
        (\<exists>right_rel. r = Some right_rel \<and>
           FromProto_DeclarationInfo env right_rel = Inl e))"
    by blast
qed

text \<open>
  C5, as amended. In both revisions the translation of a filter rel without input
  relation, and of a join rel without left relation or without right relation, returns
  an error status and no declaration. The translation of a filter rel without condition,
  and of a join rel without expression, returns no declaration either: it returns an
  error status, unless the translation of the input relation (of the left or the right
  relation) itself fails, and then this failure is the outcome. The error status is
  \<open>Invalid\<close> whenever the steps that come before the check succeed: the rel passes
  \<open>CheckRelCommon\<close> (missing input, missing left or right relation), and moreover the
  input relation translates (missing condition), respectively the join type is a
  supported one and both relations translate (missing expression).
\<close>

theorem C5_missing_parts_rejected:
  "((\<exists>c m. FromProto env (kFilter h None cond) = Inl (Error (Status c m))) \<and>
    (\<exists>c m. FromProto_DeclarationInfo env (kFilter h None cond) = Inl (Error (Status c m))) \<and>
    (\<exists>c m. FromProto env (kJoin h None r x t) = Inl (Error (Status c m))) \<and>
    (\<exists>c m. FromProto_DeclarationInfo env (kJoin h None r x t) = Inl (Error (Status c m))) \<and>
    (\<exists>c m. FromProto env (kJoin h l None x t) = Inl (Error (Status c m))) \<and>
    (\<exists>c m. FromProto_DeclarationInfo env (kJoin h l None x t) = Inl (Error (Status c m)))) \<and>
   ((\<exists>e. FromProto env (kFilter h inp None) = Inl e \<and>
       ((\<exists>c m. e = Error (Status c m)) \<or>
        (\<exists>input_rel. inp = Some input_rel \<and> FromProto env input_rel = Inl e))) \<and>
    (\<exists>e. FromProto_DeclarationInfo env (kFilter h inp None) = Inl e \<and>
       ((\<exists>c m. e = Error (Status c m)) \<or>
        (\<exists>input_rel. inp = Some input_rel \<and>
           FromProto_DeclarationInfo env input_rel = Inl e)))) \<and>
   ((\<exists>e. FromProto env (kJoin h l r None t) = Inl e \<and>
       ((\<exists>c m. e = Error (Status c m)) \<or>
        (\<exists>left_rel. l = Some left_rel \<and> FromProto env left_rel = Inl e) \<or>
        (\<exists>right_rel. r = Some right_rel \<and> FromProto env right_rel = Inl e))) \<and>
    (\<exists>e. FromProto_DeclarationInfo env (kJoin h l r None t) = Inl e \<and>
       ((\<exists>c m. e = Error (Status c m)) \<or>
        (\<exists>left_rel. l = Some left_rel \<and> FromProto_DeclarationInfo env left_rel = Inl e) \<or>
        (\<exists>right_rel. r = Some right_rel \<and>
           FromProto_DeclarationInfo env right_rel = Inl e)))) \<and>
   (CheckRelCommon h = Inr () \<longrightarrow>
      FromProto env (kFilter h None cond) =
        Inl (Error (Status Invalid ''substrait::FilterRel with no input relation'')) \<and>
      FromProto_DeclarationInfo env (kFilter h None cond) =
        Inl (Error (Status Invalid ''substrait::FilterRel with no input relation'')) \<and>
      FromProto env (kJoin h None r x t) =
        Inl (Error (Status Invalid ''substrait::JoinRel with no left relation'')) \<and>
      FromProto_DeclarationInfo env (kJoin h None r x t) =
        Inl (Error (Status Invalid ''substrait::JoinRel with no left relation'')) \<and>
      FromProto env (kJoin h (Some left_rel) None x t) =
        Inl (Error (Status Invalid ''substrait::JoinRel with no right relation'')) \<and>
      FromProto_DeclarationInfo env (kJoin h (Some left_rel) None x t) =
        Inl (Error (Status Invalid ''substrait::JoinRel with no right relation''))) \<and>
   (CheckRelCommon h = Inr () \<and> FromProto env input_rel = Inr din \<longrightarrow>
      FromProto env (kFilter h (Some input_rel) None) =
        Inl (Error (Status Invalid ''substrait::FilterRel with no condition expression''))) \<and>
   (CheckRelCommon h = Inr () \<and> FromProto_DeclarationInfo env input_rel = Inr ii \<longrightarrow>
      FromProto_DeclarationInfo env (kFilter h (Some input_rel) None) =
        Inl (Error (Status Invalid ''substrait::FilterRel with no condition expression''))) \<and>
   (CheckRelCommon h = Inr () \<and> join_type_switch t = Inr jt \<and>
    FromProto env left_rel = Inr dl \<and> FromProto env right_rel = Inr dr \<longrightarrow>
      FromProto env (kJoin h (Some left_rel) (Some right_rel) None t) =
        Inl (Error (Status Invalid ''substrait::JoinRel with no expression''))) \<and>
   (CheckRelCommon h = Inr () \<and> join_type_switch t = Inr jt \<and>
    FromProto_DeclarationInfo env left_rel = Inr il \<and>
    FromProto_DeclarationInfo env right_rel = Inr ir \<longrightarrow>
      FromProto_DeclarationInfo env (kJoin h (Some left_rel) (Some right_rel) None t) =
        Inl (Error (Status Invalid ''substrait::JoinRel with no expression'')))"
proof (intro conjI impI)
  show "\<exists>c m. FromProto env (kFilter h None cond) = Inl (Error (Status c m))"
    and "\<exists>c m. FromProto_DeclarationInfo env (kFilter h None cond) = Inl (Error (Status c m))"
    and "\<exists>c m. FromProto env (kJoin h None r x t) = Inl (Error (Status c m))"
    and "\<exists>c m. FromProto_DeclarationInfo env (kJoin h None r x t) = Inl (Error (Status c m))"
    and "\<exists>c m. FromProto env (kJoin h l None x t) = Inl (Error (Status c m))"
    and "\<exists>c m. FromProto_DeclarationInfo env (kJoin h l None x t) = Inl (Error (Status c m))"
    by (rule missing_relation_status)+
  show "\<exists>e. FromProto env (kFilter h inp None) = Inl e \<and>
       ((\<exists>c m. e = Error (Status c m)) \<or>
        (\<exists>input_rel. inp = Some input_rel \<and> FromProto env input_rel = Inl e))"
    by (rule missing_condition_failure)
  show "\<exists>e. FromProto_DeclarationInfo env (kFilter h inp None) = Inl e \<and>
       ((\<exists>c m. e = Error (Status c m)) \<or>
        (\<exists>input_rel. inp = Some input_rel \<and>
           FromProto_DeclarationInfo env input_rel = Inl e))"
    by (rule missing_condition_failure)
  show "\<exists>e. FromProto env (kJoin h l r None t) = Inl e \<and>
       ((\<exists>c m. e = Error (Status c m)) \<or>
        (\<exists>left_rel. l = Some left_rel \<and> FromProto env left_rel = Inl e) \<or>
        (\<exists>right_rel. r = Some right_rel \<and> FromProto env right_rel = Inl e))"
    by (rule missing_expression_failure)
  show "\<exists>e. FromProto_DeclarationInfo env (kJoin h l r None t) = Inl e \<and>
       ((\<exists>c m. e = Error (Status c m)) \<or>
        (\<exists>left_rel. l = Some left_rel \<and> FromProto_DeclarationInfo env left_rel = Inl e) \<or>
        (\<exists>right_rel. r = Some right_rel \<and>
           FromProto_DeclarationInfo env right_rel = Inl e))"
    by (rule missing_expression_failure)
next
  assume c: "CheckRelCommon h = Inr ()"
  show "FromProto env (kFilter h None cond) =
        Inl (Error (Status Invalid ''substrait::FilterRel with no input relation''))"
    by (simp only: kFilter_no_input c sum.case)
  show "FromProto_DeclarationInfo env (kFilter h None cond) =
        Inl (Error (Status Invalid ''substrait::FilterRel with no input relation''))"
    by (simp only: kFilter_no_input c sum.case)
  show "FromProto env (kJoin h None r x t) =
        Inl (Error (Status Invalid ''substrait::JoinRel with no left relation''))"
    by (simp only: kJoin_no_left c sum.case)
  show "FromProto_DeclarationInfo env (kJoin h None r x t) =
        Inl (Error (Status Invalid ''substrait::JoinRel with no left relation''))"
    by (simp only: kJoin_no_left c sum.case)
  show "FromProto env (kJoin h (Some left_rel) None x t) =
        Inl (Error (Status Invalid ''substrait::JoinRel with no right relation''))"
    by (simp only: kJoin_no_right c sum.case)
  show "FromProto_DeclarationInfo env (kJoin h (Some left_rel) None x t) =
        Inl (Error (Status Invalid ''substrait::JoinRel with no right relation''))"
    by (simp only: kJoin_no_right c sum.case)
next
  assume "CheckRelCommon h = Inr () \<and> FromProto env input_rel = Inr din"
  then show "FromProto env (kFilter h (Some input_rel) None) =
        Inl (Error (Status Invalid ''substrait::FilterRel with no condition expression''))"
    by (simp only: kFilter_no_condition sum.case)
next
  assume "CheckRelCommon h = Inr () \<and> FromProto_DeclarationInfo env input_rel = Inr ii"
  then show "FromProto_DeclarationInfo env (kFilter h (Some input_rel) None) =
        Inl (Error (Status Invalid ''substrait::FilterRel with no condition expression''))"
    by (simp only: kFilter_no_condition sum.case)
next
  assume "CheckRelCommon h = Inr () \<and> join_type_switch t = Inr jt \<and>
    FromProto env left_rel = Inr dl \<and> FromProto env right_rel = Inr dr"
  then show "FromProto env (kJoin h (Some left_rel) (Some right_rel) None t) =
        Inl (Error (Status Invalid ''substrait::JoinRel with no expression''))"
    by (simp only: kJoin_no_expression sum.case)
next
  assume "CheckRelCommon h = Inr () \<and> join_type_switch t = Inr jt \<and>
    FromProto_DeclarationInfo env left_rel = Inr il \<and>
    FromProto_DeclarationInfo env right_rel = Inr ir"
  then show "FromProto_DeclarationInfo env (kJoin h (Some left_rel) (Some right_rel) None t) =
        Inl (Error (Status Invalid ''substrait::JoinRel with no expression''))"
    by (simp only: kJoin_no_expression sum.case)
qed

theorem C5_missing_parts_rejected_witness:
  "FromProto example_env (kFilter no_header None (Some example_condition)) =
     Inl (Error (Status Invalid ''substrait::FilterRel with no input relation'')) \<and>
   FromProto example_env (kFilter no_header (Some example_left) None) =
     Inl (Error (Status Invalid ''substrait::FilterRel with no condition expression'')) \<and>
   FromProto_DeclarationInfo example_env (kFilter no_header (Some example_left) None) =
     Inl (Error (Status Invalid ''substrait::FilterRel with no condition expression'')) \<and>
   FromProto example_env (kJoin no_header None (Some example_right) None JOIN_TYPE_INNER) =
     Inl (Error (Status Invalid ''substrait::JoinRel with no left relation'')) \<and>
   FromProto example_env (kJoin no_header (Some example_left) None None JOIN_TYPE_INNER) =
     Inl (Error (Status Invalid ''substrait::JoinRel with no right relation'')) \<and>
   FromProto example_env
     (kJoin no_header (Some example_left) (Some example_right) None JOIN_TYPE_INNER) =
     Inl (Error (Status Invalid ''substrait::JoinRel with no expression'')) \<and>
   FromProto_DeclarationInfo example_env
     (kJoin no_header (Some example_left) (Some example_right) None JOIN_TYPE_INNER) =
     Inl (Error (Status Invalid ''substrait::JoinRel with no expression'')) \<and>
   (\<exists>c m. FromProto example_env (kFilter emit_header None None) = Inl (Error (Status c m)))"
proof -
  have sw: "join_type_switch JOIN_TYPE_INNER = Inr INNER"
    by (simp add: join_type_switch_def)
  note c5 = C5_missing_parts_rejected[where env = example_env and h = no_header
      and t = JOIN_TYPE_INNER and jt = INNER and input_rel = example_left
      and din = example_left_scan
      and ii = "\<lparr>declaration' = example_left_scan, num_columns = 3\<rparr>"
      and left_rel = example_left]
  note c5' = C5_missing_parts_rejected[where env = example_env and h = no_header
      and t = JOIN_TYPE_INNER and jt = INNER
      and left_rel = example_left and right_rel = example_right
      and dl = example_left_scan and dr = example_right_scan
      and il = "\<lparr>declaration' = example_left_scan, num_columns = 3\<rparr>"
      and ir = "\<lparr>declaration' = example_right_scan, num_columns = 3\<rparr>"]
  from c5 CheckRelCommon_no_header example_left_FromProto example_left_info
  have 1: "FromProto example_env (kFilter no_header None (Some example_condition)) =
     Inl (Error (Status Invalid ''substrait::FilterRel with no input relation''))"
   and 2: "FromProto example_env (kFilter no_header (Some example_left) None) =
     Inl (Error (Status Invalid ''substrait::FilterRel with no condition expression''))"
   and 3: "FromProto_DeclarationInfo example_env (kFilter no_header (Some example_left) None) =
     Inl (Error (Status Invalid ''substrait::FilterRel with no condition expression''))"
   and 4: "FromProto example_env (kJoin no_header None (Some example_right) None JOIN_TYPE_INNER) =
     Inl (Error (Status Invalid ''substrait::JoinRel with no left relation''))"
   and 5: "FromProto example_env (kJoin no_header (Some example_left) None None JOIN_TYPE_INNER) =
     Inl (Error (Status Invalid ''substrait::JoinRel with no right relation''))"
    by blast+
  from c5' CheckRelCommon_no_header example_left_FromProto example_left_info
    example_right_FromProto example_right_info sw
  have 6: "FromProto example_env
     (kJoin no_header (Some example_left) (Some example_right) None JOIN_TYPE_INNER) =
     Inl (Error (Status Invalid ''substrait::JoinRel with no expression''))"
   and 7: "FromProto_DeclarationInfo example_env
     (kJoin no_header (Some example_left) (Some example_right) None JOIN_TYPE_INNER) =
     Inl (Error (Status Invalid ''substrait::JoinRel with no expression''))"
    by blast+
  from C5_missing_parts_rejected[where cond = None and env = example_env
      and h = emit_header]
  have 8: "\<exists>c m. FromProto example_env (kFilter emit_header None None) =
      Inl (Error (Status c m))"
    by blast
  from 1 2 3 4 5 6 7 8 show ?thesis by blast
qed

theorem C5_counterexample:
  "FromProto example_env (kFilter emit_header None (Some example_condition)) =
     Inl (Error (Status NotImplemented ''substrait::RelCommon::Emit'')) \<and>
   FromProto_DeclarationInfo example_env (kFilter emit_header None (Some example_condition)) =
     Inl (Error (Status NotImplemented ''substrait::RelCommon::Emit''))"
  by (simp add: CheckRelCommon_emit_header)

subsection \<open>The key comparison of a join rel\<close>

lemma join_options_FromExpression_other:
  assumes "\<forall>args. ex \<noteq> call ''equal'' args \<and> ex \<noteq> call ''is_not_distinct_from'' args"
  shows "\<exists>m. join_options_FromExpression env jt ex = Inl (Error (Status Invalid m))"
proof (cases ex)
  case (call fname args)
  with assms have "fname \<noteq> ''equal''" "fname \<noteq> ''is_not_distinct_from''" by auto
  with call show ?thesis
    by (simp add: join_options_FromExpression_def join_key_cmp_of_def raise_def)
next
  case (literal d)
  then show ?thesis by (simp add: join_options_FromExpression_def raise_def)
next
  case (field_ref r)
  then show ?thesis by (simp add: join_options_FromExpression_def raise_def)
qed

lemma join_options_FromExpression_keys:
  assumes "(fname = ''equal'' \<and> cmp = EQ) \<or> (fname = ''is_not_distinct_from'' \<and> cmp = IS)"
  shows "join_options_FromExpression env jt (call fname (field_ref lk # field_ref rk # rest)) =
           Inr \<lparr>join_type = jt, left_keys = [lk], right_keys = [rk], key_cmp = [cmp]\<rparr>"
  using assms
  by (auto simp: join_options_FromExpression_def join_key_cmp_of_def join_options_of_def
        arguments_at_def)

lemma kJoin_reaches_expression:
  assumes "CheckRelCommon h = Inr ()" "join_type_switch t = Inr jt"
  shows "FromProto env left_rel = Inr dl \<Longrightarrow> FromProto env right_rel = Inr dr \<Longrightarrow>
         Expression_FromProto env sx = Inr ex \<Longrightarrow>
         FromProto env (kJoin h (Some left_rel) (Some right_rel) (Some sx) t) =
           (case join_options_FromExpression env jt ex of
              Inl e \<Rightarrow> Inl e
            | Inr jo \<Rightarrow> Inr (Declaration ''hashjoin'' (HashJoinNodeOptionsOf jo) [dl, dr]))"
    and "FromProto_DeclarationInfo env left_rel = Inr il \<Longrightarrow>
         FromProto_DeclarationInfo env right_rel = Inr ir \<Longrightarrow>
         Expression_FromProto env sx = Inr ex \<Longrightarrow>
         FromProto_DeclarationInfo env (kJoin h (Some left_rel) (Some right_rel) (Some sx) t) =
           (case join_options_FromExpression env jt ex of
              Inl e \<Rightarrow> Inl e
            | Inr jo \<Rightarrow>
                Inr \<lparr>declaration' = Declaration ''hashjoin'' (HashJoinNodeOptionsOf jo)
                                       [declaration' il, declaration' ir],
                     num_columns = num_columns il + num_columns ir\<rparr>)"
  using assms by (simp_all add: lift_def split: sum.splits)

text \<open>
  C3, as amended. Let the expression of a join rel translate to the engine expression
  \<open>ex\<close>. If the translation of the rel returns a declaration, \<open>ex\<close> is a call of
  \<open>equal\<close>, and the key comparison of the join is \<open>EQ\<close>, or a call of
  \<open>is_not_distinct_from\<close>, and it is \<open>IS\<close>. If \<open>ex\<close> is a call of any other function,
  or no call at all, the translation returns no declaration: it returns an error
  status, unless the translation of the left or of the right relation itself fails, and
  then this failure is the outcome. The error status is \<open>Invalid\<close> whenever the steps
  that come before the inspection of the expression succeed (the rel passes
  \<open>CheckRelCommon\<close>, has both relations, the join type is supported and both relations
  translate). Under the same condition a call of either of the two functions on two
  field references is accepted. Both revisions.
\<close>

theorem C3_join_key_comparison:
  assumes "Expression_FromProto env sx = Inr ex"
  shows
  "(FromProto env (kJoin h l r (Some sx) t) = Inr d \<longrightarrow>
      (\<exists>fname args jo. ex = call fname args \<and> options d = HashJoinNodeOptionsOf jo \<and>
         ((fname = ''equal'' \<and> key_cmp jo = [EQ]) \<or>
          (fname = ''is_not_distinct_from'' \<and> key_cmp jo = [IS])))) \<and>
   (FromProto_DeclarationInfo env (kJoin h l r (Some sx) t) = Inr i \<longrightarrow>
      (\<exists>fname args jo. ex = call fname args \<and>
         options (declaration' i) = HashJoinNodeOptionsOf jo \<and>
         ((fname = ''equal'' \<and> key_cmp jo = [EQ]) \<or>
          (fname = ''is_not_distinct_from'' \<and> key_cmp jo = [IS])))) \<and>
   ((\<forall>args. ex \<noteq> call ''equal'' args \<and> ex \<noteq> call ''is_not_distinct_from'' args) \<longrightarrow>
      (\<exists>e. FromProto env (kJoin h l r (Some sx) t) = Inl e \<and>
         ((\<exists>c m. e = Error (Status c m)) \<or>
          (\<exists>l_rel. l = Some l_rel \<and> FromProto env l_rel = Inl e) \<or>
          (\<exists>r_rel. r = Some r_rel \<and> FromProto env r_rel = Inl e))) \<and>
      (\<exists>e. FromProto_DeclarationInfo env (kJoin h l r (Some sx) t) = Inl e \<and>
         ((\<exists>c m. e = Error (Status c m)) \<or>
          (\<exists>l_rel. l = Some l_rel \<and> FromProto_DeclarationInfo env l_rel = Inl e) \<or>
          (\<exists>r_rel. r = Some r_rel \<and> FromProto_DeclarationInfo env r_rel = Inl e))) \<and>
      (CheckRelCommon h = Inr () \<and> join_type_switch t = Inr jt \<and>
       FromProto env left_rel = Inr dl \<and> FromProto env right_rel = Inr dr \<longrightarrow>
         (\<exists>m. FromProto env (kJoin h (Some left_rel) (Some right_rel) (Some sx) t) =
                 Inl (Error (Status Invalid m)))) \<and>
      (CheckRelCommon h = Inr () \<and> join_type_switch t = Inr jt \<and>
       FromProto_DeclarationInfo env left_rel = Inr il \<and>
       FromProto_DeclarationInfo env right_rel = Inr ir \<longrightarrow>
         (\<exists>m. FromProto_DeclarationInfo env
                 (kJoin h (Some left_rel) (Some right_rel) (Some sx) t) =
                 Inl (Error (Status Invalid m))))) \<and>
   (((fname = ''equal'' \<and> cmp = EQ) \<or> (fname = ''is_not_distinct_from'' \<and> cmp = IS)) \<and>
    ex = call fname (field_ref lk # field_ref rk # rest) \<and>
    CheckRelCommon h = Inr () \<and> join_type_switch t = Inr jt \<longrightarrow>
      (FromProto env left_rel = Inr dl \<and> FromProto env right_rel = Inr dr \<longrightarrow>
         FromProto env (kJoin h (Some left_rel) (Some right_rel) (Some sx) t) =
           Inr (Declaration ''hashjoin''
                 (HashJoinNodeOptionsOf
                   \<lparr>join_type = jt, left_keys = [lk], right_keys = [rk], key_cmp = [cmp]\<rparr>)
                 [dl, dr])) \<and>
      (FromProto_DeclarationInfo env left_rel = Inr il \<and>
       FromProto_DeclarationInfo env right_rel = Inr ir \<longrightarrow>
         FromProto_DeclarationInfo env (kJoin h (Some left_rel) (Some right_rel) (Some sx) t) =
           Inr \<lparr>declaration' =
                  Declaration ''hashjoin''
                    (HashJoinNodeOptionsOf
                      \<lparr>join_type = jt, left_keys = [lk], right_keys = [rk], key_cmp = [cmp]\<rparr>)
                    [declaration' il, declaration' ir],
                num_columns = num_columns il + num_columns ir\<rparr>))"
proof (intro conjI impI)
  assume "FromProto env (kJoin h l r (Some sx) t) = Inr d"
  from FromProto_kJoin_Inr[OF this] assms obtain jt' jo where
    "join_options_FromExpression env jt' ex = Inr jo" "options d = HashJoinNodeOptionsOf jo"
    by auto
  with join_options_FromExpression_Inr[OF this(1)]
  show "\<exists>fname args jo. ex = call fname args \<and> options d = HashJoinNodeOptionsOf jo \<and>
         ((fname = ''equal'' \<and> key_cmp jo = [EQ]) \<or>
          (fname = ''is_not_distinct_from'' \<and> key_cmp jo = [IS]))"
    by auto
next
  assume "FromProto_DeclarationInfo env (kJoin h l r (Some sx) t) = Inr i"
  from FromProto_DeclarationInfo_kJoin_Inr[OF this] assms obtain jt' jo where
    "join_options_FromExpression env jt' ex = Inr jo"
    "options (declaration' i) = HashJoinNodeOptionsOf jo"
    by auto
  with join_options_FromExpression_Inr[OF this(1)]
  show "\<exists>fname args jo. ex = call fname args \<and>
         options (declaration' i) = HashJoinNodeOptionsOf jo \<and>
         ((fname = ''equal'' \<and> key_cmp jo = [EQ]) \<or>
          (fname = ''is_not_distinct_from'' \<and> key_cmp jo = [IS]))"
    by auto
next
  assume other: "\<forall>args. ex \<noteq> call ''equal'' args \<and> ex \<noteq> call ''is_not_distinct_from'' args"
  show "\<exists>e. FromProto env (kJoin h l r (Some sx) t) = Inl e \<and>
         ((\<exists>c m. e = Error (Status c m)) \<or>
          (\<exists>l_rel. l = Some l_rel \<and> FromProto env l_rel = Inl e) \<or>
          (\<exists>r_rel. r = Some r_rel \<and> FromProto env r_rel = Inl e))"
  proof (cases "FromProto env (kJoin h l r (Some sx) t)")
    case (Inr d)
    from FromProto_kJoin_Inr[OF this] assms obtain jt' jo where
      "join_options_FromExpression env jt' ex = Inr jo" by auto
    with join_options_FromExpression_other[OF other, of env jt'] show ?thesis by auto
  next
    case (Inl e)
    from kJoin_failure(1)[OF this] assms
    have "(\<exists>c m. e = Error (Status c m)) \<or>
          (\<exists>l_rel. l = Some l_rel \<and> FromProto env l_rel = Inl e) \<or>
          (\<exists>r_rel. r = Some r_rel \<and> FromProto env r_rel = Inl e) \<or>
          (\<exists>jt'. join_options_FromExpression env jt' ex = Inl e)"
      by auto
    moreover have "\<exists>c m. e = Error (Status c m)"
      if "join_options_FromExpression env jt' ex = Inl e" for jt'
      using join_options_FromExpression_other[OF other, of env jt'] that by auto
    ultimately have "(\<exists>c m. e = Error (Status c m)) \<or>
          (\<exists>l_rel. l = Some l_rel \<and> FromProto env l_rel = Inl e) \<or>
          (\<exists>r_rel. r = Some r_rel \<and> FromProto env r_rel = Inl e)"
      by auto
    with Inl show ?thesis by (intro exI[of _ e] conjI)
  qed
  show "\<exists>e. FromProto_DeclarationInfo env (kJoin h l r (Some sx) t) = Inl e \<and>
         ((\<exists>c m. e = Error (Status c m)) \<or>
          (\<exists>l_rel. l = Some l_rel \<and> FromProto_DeclarationInfo env l_rel = Inl e) \<or>
          (\<exists>r_rel. r = Some r_rel \<and> FromProto_DeclarationInfo env r_rel = Inl e))"
  proof (cases "FromProto_DeclarationInfo env (kJoin h l r (Some sx) t)")
    case (Inr d)
    from FromProto_DeclarationInfo_kJoin_Inr[OF this] assms obtain jt' jo where
      "join_options_FromExpression env jt' ex = Inr jo" by auto
    with join_options_FromExpression_other[OF other, of env jt'] show ?thesis by auto
  next
    case (Inl e)
    from kJoin_failure(2)[OF this] assms
    have "(\<exists>c m. e = Error (Status c m)) \<or>
          (\<exists>l_rel. l = Some l_rel \<and> FromProto_DeclarationInfo env l_rel = Inl e) \<or>
          (\<exists>r_rel. r = Some r_rel \<and> FromProto_DeclarationInfo env r_rel = Inl e) \<or>
          (\<exists>jt'. join_options_FromExpression env jt' ex = Inl e)"
      by auto
    moreover have "\<exists>c m. e = Error (Status c m)"
      if "join_options_FromExpression env jt' ex = Inl e" for jt'
      using join_options_FromExpression_other[OF other, of env jt'] that by auto
    ultimately have "(\<exists>c m. e = Error (Status c m)) \<or>
          (\<exists>l_rel. l = Some l_rel \<and> FromProto_DeclarationInfo env l_rel = Inl e) \<or>
          (\<exists>r_rel. r = Some r_rel \<and> FromProto_DeclarationInfo env r_rel = Inl e)"
      by auto
    with Inl show ?thesis by (intro exI[of _ e] conjI)
  qed
  {
    assume "CheckRelCommon h = Inr () \<and> join_type_switch t = Inr jt \<and>
       FromProto env left_rel = Inr dl \<and> FromProto env right_rel = Inr dr"
    then have "FromProto env (kJoin h (Some left_rel) (Some right_rel) (Some sx) t) =
           (case join_options_FromExpression env jt ex of
              Inl e \<Rightarrow> Inl e
            | Inr jo \<Rightarrow> Inr (Declaration ''hashjoin'' (HashJoinNodeOptionsOf jo) [dl, dr]))"
      using kJoin_reaches_expression(1)[of h t jt env left_rel dl right_rel dr sx ex] assms
      by blast
    with join_options_FromExpression_other[OF other, of env jt]
    show "\<exists>m. FromProto env (kJoin h (Some left_rel) (Some right_rel) (Some sx) t) =
                 Inl (Error (Status Invalid m))"
      by auto
  }
  {
    assume "CheckRelCommon h = Inr () \<and> join_type_switch t = Inr jt \<and>
       FromProto_DeclarationInfo env left_rel = Inr il \<and>
       FromProto_DeclarationInfo env right_rel = Inr ir"
    then have "FromProto_DeclarationInfo env
        (kJoin h (Some left_rel) (Some right_rel) (Some sx) t) =
           (case join_options_FromExpression env jt ex of
              Inl e \<Rightarrow> Inl e
            | Inr jo \<Rightarrow>
                Inr \<lparr>declaration' = Declaration ''hashjoin'' (HashJoinNodeOptionsOf jo)
                                       [declaration' il, declaration' ir],
                     num_columns = num_columns il + num_columns ir\<rparr>)"
      using kJoin_reaches_expression(2)[of h t jt env left_rel il right_rel ir sx ex] assms
      by blast
    with join_options_FromExpression_other[OF other, of env jt]
    show "\<exists>m. FromProto_DeclarationInfo env
                 (kJoin h (Some left_rel) (Some right_rel) (Some sx) t) =
                 Inl (Error (Status Invalid m))"
      by auto
  }
next
  assume a: "((fname = ''equal'' \<and> cmp = EQ) \<or> (fname = ''is_not_distinct_from'' \<and> cmp = IS)) \<and>
    ex = call fname (field_ref lk # field_ref rk # rest) \<and>
    CheckRelCommon h = Inr () \<and> join_type_switch t = Inr jt"
  then have jo: "join_options_FromExpression env jt ex =
      Inr \<lparr>join_type = jt, left_keys = [lk], right_keys = [rk], key_cmp = [cmp]\<rparr>"
    using join_options_FromExpression_keys[of fname cmp env jt lk rk rest] by blast
  {
    assume "FromProto env left_rel = Inr dl \<and> FromProto env right_rel = Inr dr"
    then show "FromProto env (kJoin h (Some left_rel) (Some right_rel) (Some sx) t) =
           Inr (Declaration ''hashjoin''
                 (HashJoinNodeOptionsOf
                   \<lparr>join_type = jt, left_keys = [lk], right_keys = [rk], key_cmp = [cmp]\<rparr>)
                 [dl, dr])"
      using kJoin_reaches_expression(1)[of h t jt env left_rel dl right_rel dr sx ex] assms a jo
      by simp
  }
  {
    assume "FromProto_DeclarationInfo env left_rel = Inr il \<and>
       FromProto_DeclarationInfo env right_rel = Inr ir"
    then show "FromProto_DeclarationInfo env
         (kJoin h (Some left_rel) (Some right_rel) (Some sx) t) =
           Inr \<lparr>declaration' =
                  Declaration ''hashjoin''
                    (HashJoinNodeOptionsOf
                      \<lparr>join_type = jt, left_keys = [lk], right_keys = [rk], key_cmp = [cmp]\<rparr>)
                    [declaration' il, declaration' ir],
                num_columns = num_columns il + num_columns ir\<rparr>"
      using kJoin_reaches_expression(2)[of h t jt env left_rel il right_rel ir sx ex] assms a jo
      by simp
  }
qed


theorem C3_join_key_comparison_witness:
  "(\<exists>d jo. FromProto example_env
       (example_join no_header (call ''is_not_distinct_from'' example_keys) JOIN_TYPE_INNER) =
       Inr d \<and> options d = HashJoinNodeOptionsOf jo \<and> key_cmp jo = [IS]) \<and>
   (\<exists>i jo. FromProto_DeclarationInfo example_env
       (example_join no_header (call ''equal'' example_keys) JOIN_TYPE_INNER) = Inr i \<and>
       options (declaration' i) = HashJoinNodeOptionsOf jo \<and> key_cmp jo = [EQ]) \<and>
   (\<exists>m. FromProto example_env
       (example_join no_header (call ''add'' example_keys) JOIN_TYPE_INNER) =
       Inl (Error (Status Invalid m))) \<and>
   (\<exists>m. FromProto_DeclarationInfo example_env
       (example_join no_header (literal (BoolDatum True)) JOIN_TYPE_INNER) =
       Inl (Error (Status Invalid m)))"
proof -
  have sw: "join_type_switch JOIN_TYPE_INNER = Inr INNER"
    by (simp add: join_type_switch_def)
  have keys: "example_keys = field_ref (FieldPath [0]) # field_ref (FieldPath [5]) # []"
    by (simp add: example_keys_def)
  note pre = CheckRelCommon_no_header sw example_left_FromProto example_right_FromProto
    example_left_info example_right_info
  from C3_join_key_comparison[OF example_Expression_FromProto[of "call ''is_not_distinct_from'' example_keys"],
      where h = no_header and t = JOIN_TYPE_INNER and jt = INNER
      and left_rel = example_left and right_rel = example_right
      and dl = example_left_scan and dr = example_right_scan
      and il = "\<lparr>declaration' = example_left_scan, num_columns = 3\<rparr>"
      and ir = "\<lparr>declaration' = example_right_scan, num_columns = 3\<rparr>"
      and fname = "''is_not_distinct_from''" and cmp = IS
      and lk = "FieldPath [0]" and rk = "FieldPath [5]" and rest = "[]",
      folded example_join_def] pre keys
  have 1: "FromProto example_env
       (example_join no_header (call ''is_not_distinct_from'' example_keys) JOIN_TYPE_INNER) =
       Inr (Declaration ''hashjoin''
             (HashJoinNodeOptionsOf
               \<lparr>join_type = INNER, left_keys = [FieldPath [0]], right_keys = [FieldPath [5]],
                key_cmp = [IS]\<rparr>)
             [example_left_scan, example_right_scan])"
    by blast
  from C3_join_key_comparison[OF example_Expression_FromProto[of "call ''equal'' example_keys"],
      where h = no_header and t = JOIN_TYPE_INNER and jt = INNER
      and left_rel = example_left and right_rel = example_right
      and dl = example_left_scan and dr = example_right_scan
      and il = "\<lparr>declaration' = example_left_scan, num_columns = 3\<rparr>"
      and ir = "\<lparr>declaration' = example_right_scan, num_columns = 3\<rparr>"
      and fname = "''equal''" and cmp = EQ
      and lk = "FieldPath [0]" and rk = "FieldPath [5]" and rest = "[]",
      folded example_join_def] pre keys
  have 2: "FromProto_DeclarationInfo example_env
       (example_join no_header (call ''equal'' example_keys) JOIN_TYPE_INNER) =
       Inr \<lparr>declaration' =
              Declaration ''hashjoin''
                (HashJoinNodeOptionsOf
                  \<lparr>join_type = INNER, left_keys = [FieldPath [0]], right_keys = [FieldPath [5]],
                   key_cmp = [EQ]\<rparr>)
                [declaration' \<lparr>declaration' = example_left_scan, num_columns = 3\<rparr>,
                 declaration' \<lparr>declaration' = example_right_scan, num_columns = 3\<rparr>],
            num_columns =
              num_columns \<lparr>declaration' = example_left_scan, num_columns = 3\<rparr> +
              num_columns \<lparr>declaration' = example_right_scan, num_columns = 3\<rparr>\<rparr>"
    by blast
  have other: "\<forall>args. call ''add'' example_keys \<noteq> call ''equal'' args \<and>
      call ''add'' example_keys \<noteq> call ''is_not_distinct_from'' args"
    by simp
  from C3_join_key_comparison[OF example_Expression_FromProto[of "call ''add'' example_keys"],
      where h = no_header and t = JOIN_TYPE_INNER and jt = INNER
      and left_rel = example_left and right_rel = example_right
      and dl = example_left_scan and dr = example_right_scan
      and il = "\<lparr>declaration' = example_left_scan, num_columns = 3\<rparr>"
      and ir = "\<lparr>declaration' = example_right_scan, num_columns = 3\<rparr>",
      folded example_join_def] pre other
  have 3: "\<exists>m. FromProto example_env
       (example_join no_header (call ''add'' example_keys) JOIN_TYPE_INNER) =
       Inl (Error (Status Invalid m))"
    by blast
  have nocall: "\<forall>args. literal (BoolDatum True) \<noteq> call ''equal'' args \<and>
      literal (BoolDatum True) \<noteq> call ''is_not_distinct_from'' args"
    by simp
  from C3_join_key_comparison[OF example_Expression_FromProto[of "literal (BoolDatum True)"],
      where h = no_header and t = JOIN_TYPE_INNER and jt = INNER
      and left_rel = example_left and right_rel = example_right
      and dl = example_left_scan and dr = example_right_scan
      and il = "\<lparr>declaration' = example_left_scan, num_columns = 3\<rparr>"
      and ir = "\<lparr>declaration' = example_right_scan, num_columns = 3\<rparr>",
      folded example_join_def] pre nocall
  have 4: "\<exists>m. FromProto_DeclarationInfo example_env
       (example_join no_header (literal (BoolDatum True)) JOIN_TYPE_INNER) =
       Inl (Error (Status Invalid m))"
    by blast
  from 1 have r1: "\<exists>d jo. FromProto example_env
       (example_join no_header (call ''is_not_distinct_from'' example_keys) JOIN_TYPE_INNER) =
       Inr d \<and> options d = HashJoinNodeOptionsOf jo \<and> key_cmp jo = [IS]"
    by simp
  from 2 have r2: "\<exists>i jo. FromProto_DeclarationInfo example_env
       (example_join no_header (call ''equal'' example_keys) JOIN_TYPE_INNER) = Inr i \<and>
       options (declaration' i) = HashJoinNodeOptionsOf jo \<and> key_cmp jo = [EQ]"
    by simp
  from r1 r2 3 4 show ?thesis by blast
qed

theorem C3_counterexample:
  "Expression_FromProto example_env (call ''add'' example_keys) = Inr (call ''add'' example_keys) \<and>
   FromProto example_env
     (example_join no_header (call ''add'' example_keys) JOIN_TYPE_UNSPECIFIED) =
     Inl (Error (Status NotImplemented ''Unspecified join type is not supported'')) \<and>
   FromProto_DeclarationInfo example_env
     (example_join no_header (call ''add'' example_keys) JOIN_TYPE_UNSPECIFIED) =
     Inl (Error (Status NotImplemented ''Unspecified join type is not supported''))"
  by (simp add: example_join_FromProto example_join_info example_Expression_FromProto
        join_type_switch_def raise_def)

subsection \<open>Defects\<close>

lemma collect_uri_path_Directory:
  assumes "GetFileInfo env p = Inr file" "type file = Directory"
    and "GetFileInfo_selector env \<lparr>base_dir = p, recursive = True\<rparr> = Inr discovered_files"
  shows "collect_uri_path env (kUriPath u) p files = Inr (map (moved_from env) files)"
  using assms by (simp add: collect_uri_path_def lift_def)

text \<open>
  C9. The code at a read rel whose only item is the \<open>uri_path\<close> \<open>file:///data\<close>, where
  \<open>/data\<close> is a directory that holds the file \<open>/data/a.parquet\<close>: the recursive listing
  finds the file, but the file list of the dataset of the \<open>scan\<close> declaration holds only
  what the glob of the path itself returns, the entry of the directory. Both revisions.
\<close>

theorem C9_directory_files_not_listed:
  "GetFileInfo example_env ''/data'' = Inr \<lparr>path = ''/data'', type = Directory\<rparr> \<and>
   GetFileInfo_selector example_env \<lparr>base_dir = ''/data'', recursive = True\<rparr> =
     Inr [\<lparr>path = ''/data/a.parquet'', type = File\<rparr>] \<and>
   FromProto example_env example_directory_read =
     Inr (Declaration ''scan''
           (ScanNodeOptions
             \<lparr>ds_files = [\<lparr>path = ''/data'', type = Directory\<rparr>],
              ds_format = Some ParquetFileFormat, ds_schema = [(''A'', ''i32'')]\<rparr>
             \<lparr>use_threads = True, scan_filter = None\<rparr>)
           []) \<and>
   FromProto_DeclarationInfo example_env example_directory_read =
     Inr \<lparr>declaration' =
            Declaration ''scan''
              (ScanNodeOptions
                \<lparr>ds_files = [\<lparr>path = ''/data'', type = Directory\<rparr>],
                 ds_format = Some ParquetFileFormat, ds_schema = [(''A'', ''i32'')]\<rparr>
                \<lparr>use_threads = True, scan_filter = None\<rparr>)
              [],
          num_columns = 1\<rparr>"
  by (simp add: example_directory_read_def example_defs read_defs)

lemma join_options_of_short_arguments:
  "length args < 2 \<Longrightarrow> join_options_of jt cmp args = Inl (OutOfRange ''callptr->arguments'')"
  by (cases args) (simp_all add: join_options_of_def arguments_at_def)

lemma kJoin_short_arguments:
  assumes "CheckRelCommon h = Inr ()" "join_type_switch t = Inr jt"
    and "FromProto env left_rel = Inr dl" "FromProto env right_rel = Inr dr"
    and "Expression_FromProto env sx = Inr (call fname args)"
    and "fname = ''equal'' \<or> fname = ''is_not_distinct_from''" "length args < 2"
  shows "FromProto env (kJoin h (Some left_rel) (Some right_rel) (Some sx) t) =
           Inl (OutOfRange ''callptr->arguments'')"
proof -
  from assms(6,7) have
    "join_options_FromExpression env jt (call fname args) = Inl (OutOfRange ''callptr->arguments'')"
    by (auto simp: join_options_FromExpression_def join_key_cmp_of_def
          join_options_of_short_arguments)
  with kJoin_reaches_expression(1)[OF assms(1,2,3,4,5)] show ?thesis by simp
qed

text \<open>
  C10. The code at a join rel whose expression translates to a call of \<open>equal\<close> with no
  argument (first revision) or with one argument (second revision), with everything else
  as in an accepted join: the argument vector is read outside its bounds.
\<close>

theorem C10_arguments_read_out_of_range:
  "FromProto example_env (example_join no_header (call ''equal'' []) JOIN_TYPE_INNER) =
     Inl (OutOfRange ''callptr->arguments'') \<and>
   FromProto_DeclarationInfo example_env
     (example_join no_header (call ''equal'' [field_ref (FieldPath [0])]) JOIN_TYPE_INNER) =
     Inl (OutOfRange ''callptr->arguments'')"
  by (simp add: example_join_FromProto example_join_info join_type_switch_def
        join_options_FromExpression_def join_key_cmp_of_def join_options_of_def
        arguments_at_def)

end
